theory Spec2Isabelle
  imports Main "HOL-Library.Word" "HOL-Library.Char_ord" "HOL-Library.List_Lexorder"
begin

section \<open>Values shared by the file-upload client\<close>

text \<open>
  The development follows \<^verbatim>\<open>file_upload.go\<close>. Go strings and byte slices are
  \<^typ>\<open>string\<close> (lists of bytes). A Go \<^verbatim>\<open>error\<close> is a value of the datatype below:
  \<open>Err\<close> is an error made outside this file (by the transport, the operating system or
  a library) and is identified by its text, \<open>UnmarshalTypeError v f\<close> is the
  \<^verbatim>\<open>*json.UnmarshalTypeError\<close> for a JSON value described by \<open>v\<close> that does not
  fit the field \<open>f\<close>, \<open>ParseError s\<close> is the \<^verbatim>\<open>*time.ParseError\<close> for the text
  \<open>s\<close>, \<open>Errorf_d p n\<close> is what
  \<^verbatim>\<open>fmt.Errorf(p + "%d", n)\<close> returns and \<open>Errorf_w p e\<close> is what
  \<^verbatim>\<open>fmt.Errorf(p + "%w", e)\<close> returns: an error that wraps \<open>e\<close>. The Go \<^verbatim>\<open>nil\<close>
  error is \<open>None :: error option\<close>.
\<close>

datatype error =
    Err string
  | Errorf_d string int
  | Errorf_w string error
  | UnmarshalTypeError string string
  | ParseError string

fun Unwrap :: "error \<Rightarrow> error option" where
  "Unwrap (Errorf_w p e) = Some e"
| "Unwrap (Err s) = None"
| "Unwrap (Errorf_d p n) = None"
| "Unwrap (UnmarshalTypeError v f) = None"
| "Unwrap (ParseError s) = None"

type_synonym FileUploadID = string
type_synonym FileUploadMode = string
type_synonym FileUploadStatus = string
type_synonym ObjectType = string

definition FileUploadModeSinglePart :: FileUploadMode where
  "FileUploadModeSinglePart = ''single_part''"

definition FileUploadModeMultiPart :: FileUploadMode where
  "FileUploadModeMultiPart = ''multi_part''"

definition FileUploadModeExternalURL :: FileUploadMode where
  "FileUploadModeExternalURL = ''external_url''"


definition FileUploadStatusUploaded :: FileUploadStatus where
  "FileUploadStatusUploaded = ''uploaded''"

definition FileUploadStatusExpired :: FileUploadStatus where
  "FileUploadStatusExpired = ''expired''"

definition FileUploadStatusFailed :: FileUploadStatus where
  "FileUploadStatusFailed = ''failed''"

text \<open>\<^verbatim>\<open>http.MethodPost\<close> and \<^verbatim>\<open>http.StatusOK\<close> of \<^verbatim>\<open>net/http\<close>.\<close>

definition MethodPost :: string where
  "MethodPost = ''POST''"

definition StatusOK :: int where
  "StatusOK = 200"

record FileUploadCreateRequest =
  Mode :: FileUploadMode
  Filename :: string
  ContentType :: string
  NumberOfParts :: "32 word option"
  ExternalURL :: string

subsection \<open>\<^verbatim>\<open>strconv.Itoa\<close>\<close>

text \<open>
  The decimal text of an integer: a minus sign for a negative number, then the digits
  of its magnitude, most significant first, with no leading zero.
\<close>

function decimal :: "nat \<Rightarrow> string" where
  "decimal n =
     (if n < 10 then [''0123456789'' ! n]
      else decimal (n div 10) @ [''0123456789'' ! (n mod 10)])"
  by pat_completeness auto
termination
  by (relation "measure id") auto

declare decimal.simps [simp del]

definition Itoa :: "int \<Rightarrow> string" where
  "Itoa i = (if i < 0 then CHR ''-'' # decimal (nat (- i)) else decimal (nat i))"

section \<open>The transport\<close>

text \<open>
  \<^verbatim>\<open>Client.request(ctx, method, path, query, body, contentTypeOverride)\<close> is declared
  outside \<^verbatim>\<open>file_upload.go\<close>; it is a parameter of the model: a function from the
  arguments of one call to the error or the (non-\<^verbatim>\<open>nil\<close>) response that the call
  returns. The body
  handed over is either the create request (a pointer, \<open>None\<close> when it is
  \<^verbatim>\<open>nil\<close>) or the bytes of the buffer that holds the multipart form.

  A response body is a stream that is decoded at most once and then closed. Its
  content is what \<^verbatim>\<open>encoding/json\<close> finds when it scans the stream for its first
  value: \<open>BadBody e\<close> when reading or scanning fails with \<open>e\<close> (a read error, an
  empty body, a syntax error), \<open>JsonBody v\<close> when the first value is \<open>v\<close>.
  A number that is written as an integer is \<open>JInt\<close>; a number with a fraction or an
  exponent is \<open>JFloat\<close> and keeps its text.
\<close>

datatype json =
    JNull
  | JBool bool
  | JInt int
  | JFloat string
  | JString string
  | JArray "json list"
  | JObject "(string \<times> json) list"

datatype body_content = BadBody error | JsonBody json

record ReadCloser =
  content :: body_content
  close_err :: "error option"

record Response =
  StatusCode :: int
  Body :: ReadCloser

datatype request_body =
    CreateBody "FileUploadCreateRequest option"
  | BufferBody string

type_synonym Context = nat

record call =
  c_ctx :: Context
  c_method :: string
  c_path :: string
  c_query :: "(string \<times> string) list option"
  c_body :: request_body
  c_contentTypeOverride :: string

record Client =
  request :: "call \<Rightarrow> error + Response"

record FileUploadClient =
  apiClient :: Client

text \<open>
  What an operation did and returned: the transport calls it made, in order, the lines
  it sent to the logger (\<open>Printf_v p e\<close> is \<^verbatim>\<open>log.Printf(p + "%v", e)\<close>) and its
  return value.
\<close>

datatype log_entry = Printf_v string error

record 'a outcome =
  calls :: "call list"
  logs :: "log_entry list"
  result :: 'a

section \<open>\<^verbatim>\<open>mime/multipart\<close>: the form writer\<close>

definition CRLF :: string where
  "CRLF = [CHR 0x0D, CHR 0x0A]"

definition quoted :: "string \<Rightarrow> string" where
  "quoted s = CHR 0x22 # s @ [CHR 0x22]"

text \<open>
  \<^verbatim>\<open>escapeQuotes\<close>: a backslash before every backslash and every double quote; a
  carriage return becomes \<open>%0D\<close> and a line feed \<open>%0A\<close>.
\<close>

fun escapeQuotes :: "string \<Rightarrow> string" where
  "escapeQuotes [] = []"
| "escapeQuotes (c # cs) =
     (if c = CHR 0x5C \<or> c = CHR 0x22 then CHR 0x5C # c # escapeQuotes cs
      else if c = CHR 0x0D then ''%0D'' @ escapeQuotes cs
      else if c = CHR 0x0A then ''%0A'' @ escapeQuotes cs
      else c # escapeQuotes cs)"

text \<open>
  A \<^verbatim>\<open>multipart.Writer\<close> over a \<^verbatim>\<open>bytes.Buffer\<close>: the bytes written so far
  (\<open>wbuf\<close>, the Go field \<^verbatim>\<open>w\<close>), the boundary and the part being written. A
  handle returned by \<^verbatim>\<open>CreatePart\<close> is the writer's \<^verbatim>\<open>lastpart\<close> itself, so writing
  through the handle is an operation on the writer's state. Appending to a
  \<^verbatim>\<open>bytes.Buffer\<close> returns no error.
\<close>

record part =
  closed :: bool
  we :: "error option"

record Writer =
  wbuf :: string
  boundary :: string
  lastpart :: "part option"

text \<open>
  \<^verbatim>\<open>NewWriter\<close> draws the boundary from \<^verbatim>\<open>randomBoundary()\<close>: thirty random bytes
  in hexadecimal. The drawn string is the argument \<open>b\<close>.
\<close>

definition NewWriter :: "string \<Rightarrow> Writer" where
  "NewWriter b = \<lparr>wbuf = [], boundary = b, lastpart = None\<rparr>"

definition FormDataContentType :: "Writer \<Rightarrow> string" where
  "FormDataContentType W =
     ''multipart/form-data; boundary='' @
       (if list_ex (\<lambda>c. c \<in> set (''()<>@,;:'' @ [CHR 0x5C, CHR 0x22] @ ''/[]?= '')) (boundary W)
        then quoted (boundary W) else boundary W)"

text \<open>
  A \<^verbatim>\<open>textproto.MIMEHeader\<close> maps a key to its values. The keys set below are in
  canonical form already. \<^verbatim>\<open>CreatePart\<close> writes the keys in sorted order.
\<close>

type_synonym MIMEHeader = "(string \<times> string list) list"

definition Set_header :: "MIMEHeader \<Rightarrow> string \<Rightarrow> string \<Rightarrow> MIMEHeader" where
  "Set_header h k v = (k, [v]) # filter (\<lambda>kv. fst kv \<noteq> k) h"

definition part_close :: "part \<Rightarrow> part \<times> error option" where
  "part_close p = (p\<lparr>closed := True\<rparr>, we p)"

definition header_lines :: "MIMEHeader \<Rightarrow> string" where
  "header_lines h =
     concat (map (\<lambda>kv. concat (map (\<lambda>v. fst kv @ '': '' @ v @ CRLF) (snd kv)))
       (sort_key fst h))"

definition CreatePart :: "Writer \<Rightarrow> MIMEHeader \<Rightarrow> error + Writer" where
  "CreatePart W header =
     (case (case lastpart W of None \<Rightarrow> None | Some p \<Rightarrow> snd (part_close p)) of
        Some e \<Rightarrow> Inl e
      | None \<Rightarrow>
          let b = (if lastpart W \<noteq> None then CRLF @ ''--'' @ boundary W @ CRLF
                   else ''--'' @ boundary W @ CRLF)
                  @ header_lines header @ CRLF
          in Inr (W\<lparr>wbuf := wbuf W @ b,
                     lastpart := Some \<lparr>closed = False, we = None\<rparr>\<rparr>))"

definition CreateFormFile :: "Writer \<Rightarrow> string \<Rightarrow> string \<Rightarrow> error + Writer" where
  "CreateFormFile W fieldname filename =
     (let h = Set_header [] ''Content-Disposition''
                (''form-data; name='' @ quoted (escapeQuotes fieldname) @
                 ''; filename='' @ quoted (escapeQuotes filename));
          h = Set_header h ''Content-Type'' ''application/octet-stream''
      in CreatePart W h)"

definition CreateFormField :: "Writer \<Rightarrow> string \<Rightarrow> error + Writer" where
  "CreateFormField W fieldname =
     (let h = Set_header [] ''Content-Disposition''
                (''form-data; name='' @ quoted (escapeQuotes fieldname))
      in CreatePart W h)"

text \<open>
  \<^verbatim>\<open>part.Write\<close> through the handle of the part created last. A handle whose part
  the writer has left behind is closed.
\<close>

definition part_Write :: "Writer \<Rightarrow> string \<Rightarrow> error + Writer" where
  "part_Write W d =
     (case lastpart W of
        None \<Rightarrow> Inl (Err ''multipart: can't write to finished part'')
      | Some p \<Rightarrow>
          if closed p then Inl (Err ''multipart: can't write to finished part'')
          else Inr (W\<lparr>wbuf := wbuf W @ d\<rparr>))"

definition WriteField :: "Writer \<Rightarrow> string \<Rightarrow> string \<Rightarrow> error + Writer" where
  "WriteField W fieldname v =
     (case CreateFormField W fieldname of
        Inl e \<Rightarrow> Inl e
      | Inr W' \<Rightarrow> part_Write W' v)"

definition Writer_Close :: "Writer \<Rightarrow> error + Writer" where
  "Writer_Close W =
     (case (case lastpart W of None \<Rightarrow> None | Some p \<Rightarrow> snd (part_close p)) of
        Some e \<Rightarrow> Inl e
      | None \<Rightarrow>
          Inr (W\<lparr>wbuf := wbuf W @ CRLF @ ''--'' @ boundary W @ ''--'' @ CRLF,
                  lastpart := None\<rparr>))"

section \<open>\<^verbatim>\<open>io.Reader\<close> and \<^verbatim>\<open>io.Copy\<close>\<close>

text \<open>
  A reader (not \<^verbatim>\<open>nil\<close>) is the finite sequence of chunks its \<^verbatim>\<open>Read\<close> calls
  deliver, and how the sequence ends: \<open>None\<close> for \<^verbatim>\<open>io.EOF\<close>, \<open>Some e\<close> for a read
  error. \<^verbatim>\<open>io.Copy\<close> writes every non-empty chunk to the destination and stops at the
  first write error, at the read error or at the end of the stream.
\<close>

record reader =
  chunks :: "string list"
  final :: "error option"

fun copy_loop :: "Writer \<Rightarrow> string list \<Rightarrow> error option \<Rightarrow> Writer \<times> error option" where
  "copy_loop W [] fin = (W, fin)"
| "copy_loop W (c # cs) fin =
     (if c = [] then copy_loop W cs fin
      else (case part_Write W c of
              Inl e \<Rightarrow> (W, Some e)
            | Inr W' \<Rightarrow> copy_loop W' cs fin))"

definition io_Copy :: "Writer \<Rightarrow> reader \<Rightarrow> Writer \<times> error option" where
  "io_Copy W src = copy_loop W (chunks src) (final src)"

section \<open>Send\<close>

text \<open>
  \<^verbatim>\<open>ContentTypeFormData\<close> is a constant of the package declared outside
  \<^verbatim>\<open>file_upload.go\<close>; its value is the argument \<open>ctfd\<close>. The argument \<open>b\<close> is the
  boundary that \<^verbatim>\<open>multipart.NewWriter\<close> draws in this call. A part number is a Go
  \<^verbatim>\<open>int\<close> (64 bits), read as a signed number.
\<close>

definition close_log :: "string \<Rightarrow> error option \<Rightarrow> log_entry list" where
  "close_log p ec = (case ec of None \<Rightarrow> [] | Some e \<Rightarrow> [Printf_v p e])"

definition Send ::
  "string \<Rightarrow> string \<Rightarrow> FileUploadClient \<Rightarrow> Context \<Rightarrow> FileUploadID \<Rightarrow> reader \<Rightarrow> string
     \<Rightarrow> 64 word option \<Rightarrow> error option outcome" where
  "Send ctfd b fuc ctx ident file fileName partNumber =
     (let writer = NewWriter b in
      case CreateFormFile writer ''file'' fileName of
        Inl e \<Rightarrow>
          \<lparr>calls = [], logs = [],
           result = Some (Errorf_w ''FileUploadClient.Send: failed to create form file: '' e)\<rparr>
      | Inr writer \<Rightarrow>
      (case io_Copy writer file of
        (writer, Some e) \<Rightarrow>
          \<lparr>calls = [], logs = [],
           result = Some (Errorf_w ''FileUploadClient.Send: failed to copy file to form: '' e)\<rparr>
      | (writer, None) \<Rightarrow>
      (case (case partNumber of
               None \<Rightarrow> Inr writer
             | Some p \<Rightarrow> WriteField writer ''part_number'' (Itoa (sint p))) of
        Inl e \<Rightarrow>
          \<lparr>calls = [], logs = [],
           result = Some (Errorf_w ''FileUploadClient.Send: failed to write part_number field: '' e)\<rparr>
      | Inr writer \<Rightarrow>
      (case Writer_Close writer of
        Inl e \<Rightarrow>
          \<lparr>calls = [], logs = [],
           result = Some (Errorf_w ''FileUploadClient.Send: failed to close multipart writer: '' e)\<rparr>
      | Inr writer \<Rightarrow>
      (let uploadURL = ''file_uploads/'' @ ident @ ''/send'';
           c = \<lparr>c_ctx = ctx, c_method = MethodPost, c_path = uploadURL, c_query = None,
                c_body = BufferBody (wbuf writer), c_contentTypeOverride = ctfd\<rparr>
       in case request (apiClient fuc) c of
            Inl e \<Rightarrow>
              \<lparr>calls = [c], logs = [],
               result = Some (Errorf_w ''FileUploadClient.Send: request failed: '' e)\<rparr>
          | Inr res \<Rightarrow>
              \<lparr>calls = [c],
               logs = close_log ''FileUploadClient.Send: failed to close response body: ''
                        (close_err (Body res)),
               result =
                 (if StatusCode res \<noteq> StatusOK
                  then Some (Errorf_d ''FileUploadClient.Send: unexpected status code: ''
                               (StatusCode res))
                  else None)\<rparr>)))))"

section \<open>The upload record and its decoding\<close>

text \<open>
  A \<^verbatim>\<open>time.Time\<close> is its zero value or the instant that a timestamp text denotes.
  \<^verbatim>\<open>ObjectType\<close> is declared outside \<^verbatim>\<open>file_upload.go\<close>; it is a string type, as the
  comment on the field says. A Go \<^verbatim>\<open>int\<close> has 64 bits.
  The fields \<^verbatim>\<open>Filename\<close> and \<^verbatim>\<open>ContentType\<close> of \<^verbatim>\<open>FileUpload\<close> carry the prefix
  \<open>fu_\<close>: the create request has fields of the same names.
\<close>

datatype Time = ZeroTime | RFC3339 string

record FileUpload =
  Object :: ObjectType
  ID :: FileUploadID
  CreatedTime :: Time
  LastEditedTime :: Time
  ExpiryTime :: "Time option"
  Status :: FileUploadStatus
  fu_Filename :: string
  fu_ContentType :: string
  ContentLength :: "int option"
  UploadURL :: string
  CompleteURL :: string
  FileImportResult :: string

definition zero_FileUpload :: FileUpload where
  "zero_FileUpload =
     \<lparr>Object = [], ID = [], CreatedTime = ZeroTime, LastEditedTime = ZeroTime,
      ExpiryTime = None, Status = [], fu_Filename = [], fu_ContentType = [],
      ContentLength = None, UploadURL = [], CompleteURL = [], FileImportResult = []\<rparr>"

subsection \<open>\<^verbatim>\<open>encoding/json\<close>: a value into a \<^verbatim>\<open>FileUpload\<close>\<close>

text \<open>
  A key of the object selects the field whose tag it equals once both are folded:
  ASCII letters to upper case, the long s (U+017F) to \<open>S\<close> and the Kelvin sign
  (U+212A) to \<open>K\<close>. The tags of \<^verbatim>\<open>FileUpload\<close> are ASCII, so no other character
  outside ASCII can take part in a match. Keys are taken in the order of the text, so
  the last of two keys for one field wins; a key for no field is skipped.
\<close>

definition upper :: "char \<Rightarrow> char" where
  "upper c =
     (case map_of (zip ''abcdefghijklmnopqrstuvwxyz'' ''ABCDEFGHIJKLMNOPQRSTUVWXYZ'') c of
        Some u \<Rightarrow> u
      | None \<Rightarrow> c)"

fun foldName :: "string \<Rightarrow> string" where
  "foldName [] = []"
| "foldName (c # cs) =
     (if c = CHR 0xC5 \<and> take 1 cs = [CHR 0xBF] then CHR ''S'' # foldName (drop 1 cs)
      else if c = CHR 0xE2 \<and> take 2 cs = [CHR 0x84, CHR 0xAA] then CHR ''K'' # foldName (drop 2 cs)
      else upper c # foldName cs)"

fun literal_kind :: "json \<Rightarrow> string" where
  "literal_kind JNull = ''null''"
| "literal_kind (JBool b) = ''bool''"
| "literal_kind (JInt n) = ''number''"
| "literal_kind (JFloat s) = ''number''"
| "literal_kind (JString s) = ''string''"
| "literal_kind (JArray xs) = ''array''"
| "literal_kind (JObject kvs) = ''object''"

text \<open>
  The decoder keeps the first error that a field meets and goes on with the next key
  (\<^verbatim>\<open>saveError\<close>).
\<close>

definition saveError :: "error \<Rightarrow> error option \<Rightarrow> error option" where
  "saveError e saved = (case saved of None \<Rightarrow> Some e | Some s \<Rightarrow> Some s)"

text \<open>A field of a string type: \<^verbatim>\<open>null\<close> leaves it alone, a string sets it.\<close>

definition store_string ::
  "string \<Rightarrow> json \<Rightarrow> string \<Rightarrow> error option \<Rightarrow> string \<times> error option" where
  "store_string f v cur saved =
     (case v of
        JNull \<Rightarrow> (cur, saved)
      | JString s \<Rightarrow> (s, saved)
      | _ \<Rightarrow> (cur, saveError (UnmarshalTypeError (literal_kind v) f) saved))"

text \<open>
  A field of type \<^verbatim>\<open>time.Time\<close>: \<^verbatim>\<open>null\<close> leaves it alone, a string that is an
  RFC 3339 timestamp sets it, a string that is none is a parse error and any other
  value is a type error. Which texts are RFC 3339 timestamps is the parameter
  \<open>rfc\<close>. A field of type \<^verbatim>\<open>*time.Time\<close> becomes \<^verbatim>\<open>nil\<close> for \<^verbatim>\<open>null\<close>.
\<close>

definition store_time ::
  "(string \<Rightarrow> bool) \<Rightarrow> string \<Rightarrow> json \<Rightarrow> Time \<Rightarrow> error option \<Rightarrow> Time \<times> error option" where
  "store_time rfc f v cur saved =
     (case v of
        JNull \<Rightarrow> (cur, saved)
      | JString s \<Rightarrow>
          if rfc s then (RFC3339 s, saved) else (cur, saveError (ParseError s) saved)
      | _ \<Rightarrow> (cur, saveError (UnmarshalTypeError (literal_kind v) f) saved))"

definition store_time_ptr ::
  "(string \<Rightarrow> bool) \<Rightarrow> string \<Rightarrow> json \<Rightarrow> Time option \<Rightarrow> error option
     \<Rightarrow> Time option \<times> error option" where
  "store_time_ptr rfc f v cur saved =
     (case v of
        JNull \<Rightarrow> (None, saved)
      | _ \<Rightarrow>
         (case store_time rfc f v (case cur of None \<Rightarrow> ZeroTime | Some t \<Rightarrow> t) saved of
            (t, s) \<Rightarrow> (Some t, s)))"

text \<open>
  A field of type \<^verbatim>\<open>*int\<close> (64 bits): \<^verbatim>\<open>null\<close> makes it \<^verbatim>\<open>nil\<close>; any other value
  makes it point to an integer, which a number in range sets.
\<close>

definition store_int_ptr ::
  "string \<Rightarrow> json \<Rightarrow> int option \<Rightarrow> error option \<Rightarrow> int option \<times> error option" where
  "store_int_ptr f v cur saved =
     (let alloc = Some (case cur of None \<Rightarrow> 0 | Some n \<Rightarrow> n) in
      case v of
        JNull \<Rightarrow> (None, saved)
      | JInt n \<Rightarrow>
          if - (2 ^ 63) \<le> n \<and> n < 2 ^ 63 then (Some n, saved)
          else (alloc, saveError (UnmarshalTypeError (''number '' @ Itoa n) f) saved)
      | JFloat s \<Rightarrow> (alloc, saveError (UnmarshalTypeError (''number '' @ s) f) saved)
      | _ \<Rightarrow> (alloc, saveError (UnmarshalTypeError (literal_kind v) f) saved))"

text \<open>
  The fields of \<^verbatim>\<open>FileUpload\<close> with their tags, in the order of the declaration. A
  key selects the field whose tag it equals; failing that, the first field whose
  folded tag equals the folded key.
\<close>

datatype field =
    F_object | F_id | F_created_time | F_last_edited_time | F_expiry_time | F_status
  | F_filename | F_content_type | F_content_length | F_upload_url | F_complete_url
  | F_file_import_result

fun field_tag :: "field \<Rightarrow> string" where
  "field_tag F_object = ''object''"
| "field_tag F_id = ''id''"
| "field_tag F_created_time = ''created_time''"
| "field_tag F_last_edited_time = ''last_edited_time''"
| "field_tag F_expiry_time = ''expiry_time''"
| "field_tag F_status = ''status''"
| "field_tag F_filename = ''filename''"
| "field_tag F_content_type = ''content_type''"
| "field_tag F_content_length = ''content_length''"
| "field_tag F_upload_url = ''upload_url''"
| "field_tag F_complete_url = ''complete_url''"
| "field_tag F_file_import_result = ''file_import_result''"

definition struct_fields :: "field list" where
  "struct_fields =
     [F_object, F_id, F_created_time, F_last_edited_time, F_expiry_time, F_status,
      F_filename, F_content_type, F_content_length, F_upload_url, F_complete_url,
      F_file_import_result]"

definition find_field :: "string \<Rightarrow> field option" where
  "find_field key =
     (case find (\<lambda>f. field_tag f = key) struct_fields of
        Some f \<Rightarrow> Some f
      | None \<Rightarrow> find (\<lambda>f. foldName (field_tag f) = foldName key) struct_fields)"

fun store_field ::
  "(string \<Rightarrow> bool) \<Rightarrow> field \<Rightarrow> json \<Rightarrow> FileUpload \<times> error option
     \<Rightarrow> FileUpload \<times> error option" where
  "store_field rfc F_object v (r, saved) =
     (case store_string ''object'' v (Object r) saved of
        (x, s) \<Rightarrow> (r\<lparr>Object := x\<rparr>, s))"
| "store_field rfc F_id v (r, saved) =
     (case store_string ''id'' v (ID r) saved of
        (x, s) \<Rightarrow> (r\<lparr>ID := x\<rparr>, s))"
| "store_field rfc F_created_time v (r, saved) =
     (case store_time rfc ''created_time'' v (CreatedTime r) saved of
        (x, s) \<Rightarrow> (r\<lparr>CreatedTime := x\<rparr>, s))"
| "store_field rfc F_last_edited_time v (r, saved) =
     (case store_time rfc ''last_edited_time'' v (LastEditedTime r) saved of
        (x, s) \<Rightarrow> (r\<lparr>LastEditedTime := x\<rparr>, s))"
| "store_field rfc F_expiry_time v (r, saved) =
     (case store_time_ptr rfc ''expiry_time'' v (ExpiryTime r) saved of
        (x, s) \<Rightarrow> (r\<lparr>ExpiryTime := x\<rparr>, s))"
| "store_field rfc F_status v (r, saved) =
     (case store_string ''status'' v (Status r) saved of
        (x, s) \<Rightarrow> (r\<lparr>Status := x\<rparr>, s))"
| "store_field rfc F_filename v (r, saved) =
     (case store_string ''filename'' v (fu_Filename r) saved of
        (x, s) \<Rightarrow> (r\<lparr>fu_Filename := x\<rparr>, s))"
| "store_field rfc F_content_type v (r, saved) =
     (case store_string ''content_type'' v (fu_ContentType r) saved of
        (x, s) \<Rightarrow> (r\<lparr>fu_ContentType := x\<rparr>, s))"
| "store_field rfc F_content_length v (r, saved) =
     (case store_int_ptr ''content_length'' v (ContentLength r) saved of
        (x, s) \<Rightarrow> (r\<lparr>ContentLength := x\<rparr>, s))"
| "store_field rfc F_upload_url v (r, saved) =
     (case store_string ''upload_url'' v (UploadURL r) saved of
        (x, s) \<Rightarrow> (r\<lparr>UploadURL := x\<rparr>, s))"
| "store_field rfc F_complete_url v (r, saved) =
     (case store_string ''complete_url'' v (CompleteURL r) saved of
        (x, s) \<Rightarrow> (r\<lparr>CompleteURL := x\<rparr>, s))"
| "store_field rfc F_file_import_result v (r, saved) =
     (case store_string ''file_import_result'' v (FileImportResult r) saved of
        (x, s) \<Rightarrow> (r\<lparr>FileImportResult := x\<rparr>, s))"

definition decode_field ::
  "(string \<Rightarrow> bool) \<Rightarrow> string \<Rightarrow> json \<Rightarrow> FileUpload \<times> error option
     \<Rightarrow> FileUpload \<times> error option" where
  "decode_field rfc key v st =
     (case find_field key of
        None \<Rightarrow> st
      | Some f \<Rightarrow> store_field rfc f v st)"

fun decode_object ::
  "(string \<Rightarrow> bool) \<Rightarrow> (string \<times> json) list \<Rightarrow> FileUpload \<times> error option
     \<Rightarrow> FileUpload \<times> error option" where
  "decode_object rfc [] st = st"
| "decode_object rfc (kv # kvs) st =
     decode_object rfc kvs (decode_field rfc (fst kv) (snd kv) st)"

text \<open>
  \<^verbatim>\<open>Unmarshal\<close> into a fresh \<^verbatim>\<open>FileUpload\<close>: \<^verbatim>\<open>null\<close> leaves the zero record, an
  object fills its fields, any other value is a type error. The first error that was
  kept is returned when the value has been read to its end.
\<close>

definition Unmarshal :: "(string \<Rightarrow> bool) \<Rightarrow> json \<Rightarrow> error + FileUpload" where
  "Unmarshal rfc v =
     (case v of
        JNull \<Rightarrow> Inr zero_FileUpload
      | JObject kvs \<Rightarrow>
          (case decode_object rfc kvs (zero_FileUpload, None) of
             (r, saved) \<Rightarrow> (case saved of None \<Rightarrow> Inr r | Some e \<Rightarrow> Inl e))
      | _ \<Rightarrow> Inl (UnmarshalTypeError (literal_kind v) []))"

definition Decode :: "(string \<Rightarrow> bool) \<Rightarrow> ReadCloser \<Rightarrow> error + FileUpload" where
  "Decode rfc bd =
     (case content bd of
        BadBody e \<Rightarrow> Inl e
      | JsonBody v \<Rightarrow> Unmarshal rfc v)"

definition handleFileUploadResponse ::
  "(string \<Rightarrow> bool) \<Rightarrow> Response \<Rightarrow> error + FileUpload" where
  "handleFileUploadResponse rfc res =
     (case Decode rfc (Body res) of
        Inl err \<Rightarrow> Inl (Errorf_w ''handleFileUploadResponse: failed to decode json: '' err)
      | Inr response \<Rightarrow> Inr response)"

section \<open>Create\<close>

definition Create ::
  "(string \<Rightarrow> bool) \<Rightarrow> FileUploadClient \<Rightarrow> Context \<Rightarrow> FileUploadCreateRequest option
     \<Rightarrow> (error + FileUpload) outcome" where
  "Create rfc fuc ctx requestBody =
     (let c = \<lparr>c_ctx = ctx, c_method = MethodPost, c_path = ''file_uploads'', c_query = None,
               c_body = CreateBody requestBody, c_contentTypeOverride = []\<rparr>
      in case request (apiClient fuc) c of
           Inl err \<Rightarrow> \<lparr>calls = [c], logs = [], result = Inl err\<rparr>
         | Inr res \<Rightarrow>
             \<lparr>calls = [c],
              logs = close_log ''FileUploadClient.Create: failed to close response body: ''
                       (close_err (Body res)),
              result =
                (if StatusCode res \<noteq> StatusOK
                 then Inl (Errorf_d ''FileUploadClient.Create: unexpected status code: ''
                             (StatusCode res))
                 else handleFileUploadResponse rfc res)\<rparr>)"

section \<open>SendFileByPath\<close>

text \<open>
  The file system is the parameter \<open>fs\<close>: what \<^verbatim>\<open>os.Open\<close> finds at a path, an error
  or a file with the bytes it delivers, the error (if any) of \<^verbatim>\<open>Stat\<close> and the error
  (if any) of \<^verbatim>\<open>Close\<close>. The \<^verbatim>\<open>FileInfo\<close> of an open file names it by the base name
  of the path it was opened with (\<^verbatim>\<open>basename\<close> of package \<^verbatim>\<open>os\<close>, on Unix: trailing
  slashes are dropped while more than one byte is left, then everything up to the last
  slash before the final byte).
\<close>

record file_state =
  fs_content :: reader
  fs_stat_err :: "error option"
  fs_close_err :: "error option"

record File =
  f_name :: string
  f_state :: file_state

record FileInfo =
  Name :: string

fun strip_slashes_rev :: "string \<Rightarrow> string" where
  "strip_slashes_rev (c # d # r) =
     (if c = CHR ''/'' then strip_slashes_rev (d # r) else c # d # r)"
| "strip_slashes_rev r = r"

definition basename :: "string \<Rightarrow> string" where
  "basename name =
     (case strip_slashes_rev (rev name) of
        [] \<Rightarrow> []
      | c # r \<Rightarrow> rev (takeWhile (\<lambda>x. x \<noteq> CHR ''/'') r) @ [c])"

definition os_Open :: "(string \<Rightarrow> error + file_state) \<Rightarrow> string \<Rightarrow> error + File" where
  "os_Open fs name =
     (case fs name of
        Inl e \<Rightarrow> Inl e
      | Inr st \<Rightarrow> Inr \<lparr>f_name = name, f_state = st\<rparr>)"

definition File_Stat :: "File \<Rightarrow> error + FileInfo" where
  "File_Stat f =
     (case fs_stat_err (f_state f) of
        Some e \<Rightarrow> Inl e
      | None \<Rightarrow> Inr \<lparr>Name = basename (f_name f)\<rparr>)"

definition SendFileByPath ::
  "string \<Rightarrow> string \<Rightarrow> (string \<Rightarrow> error + file_state) \<Rightarrow> FileUploadClient \<Rightarrow> Context
     \<Rightarrow> FileUploadID \<Rightarrow> string \<Rightarrow> 64 word option \<Rightarrow> error option outcome" where
  "SendFileByPath ctfd b fs fuc ctx ident filePath partNumber =
     (case os_Open fs filePath of
        Inl err \<Rightarrow>
          \<lparr>calls = [], logs = [],
           result = Some (Errorf_w (''SendFileByPath: failed to open file '' @ filePath @ '': '')
                            err)\<rparr>
      | Inr file \<Rightarrow>
          (let deferred = close_log (''SendFileByPath: failed to close file '' @ filePath @ '': '')
                            (fs_close_err (f_state file))
           in case File_Stat file of
                Inl err \<Rightarrow>
                  \<lparr>calls = [], logs = deferred,
                   result =
                     Some (Errorf_w
                       (''SendFileByPath: failed to get file info for '' @ filePath @ '': '')
                       err)\<rparr>
              | Inr info \<Rightarrow>
                  (let fileName = Name info;
                       out = Send ctfd b fuc ctx ident (fs_content (f_state file)) fileName
                               partNumber
                   in out\<lparr>logs := logs out @ deferred\<rparr>)))"

section \<open>Reference descriptions\<close>

text \<open>
  The definitions of this section are not translations of the client: they say, in
  the words of the protocol, what the functions above are compared with.
\<close>

subsection \<open>A multipart form as a list of parts\<close>

text \<open>
  A form is a list of parts: a file part with a field name, a declared file name and
  its bytes, or a text field with a name and a value. Its encoding under a boundary
  \<open>b\<close> frames every part by the delimiter line \<open>--b\<close>, the part's headers and an
  empty line, and ends with the closing delimiter \<open>--b--\<close>.
\<close>

datatype form_part = FilePart string string string | TextField string string

fun encode_part :: "string \<Rightarrow> form_part \<Rightarrow> string" where
  "encode_part b (FilePart name filename bytes) =
     ''--'' @ b @ CRLF @
     ''Content-Disposition: form-data; name='' @ quoted (escapeQuotes name) @
       ''; filename='' @ quoted (escapeQuotes filename) @ CRLF @
     ''Content-Type: application/octet-stream'' @ CRLF @
     CRLF @ bytes @ CRLF"
| "encode_part b (TextField name v) =
     ''--'' @ b @ CRLF @
     ''Content-Disposition: form-data; name='' @ quoted (escapeQuotes name) @ CRLF @
     CRLF @ v @ CRLF"

definition encode_form :: "string \<Rightarrow> form_part list \<Rightarrow> string" where
  "encode_form b ps = concat (map (encode_part b) ps) @ ''--'' @ b @ ''--'' @ CRLF"

text \<open>The form of one upload: the file, then the part number when there is one.\<close>

definition upload_form :: "string \<Rightarrow> string \<Rightarrow> 64 word option \<Rightarrow> form_part list" where
  "upload_form fileName bytes partNumber =
     FilePart ''file'' fileName bytes #
       (case partNumber of
          None \<Rightarrow> []
        | Some p \<Rightarrow> [TextField ''part_number'' (Itoa (sint p))])"

definition open_part :: "part option" where
  "open_part = Some \<lparr>closed = False, we = None\<rparr>"

subsection \<open>The transport calls and what their answers mean\<close>

definition send_call ::
  "string \<Rightarrow> string \<Rightarrow> Context \<Rightarrow> FileUploadID \<Rightarrow> reader \<Rightarrow> string \<Rightarrow> 64 word option
     \<Rightarrow> call" where
  "send_call ctfd b ctx ident file fileName partNumber =
     \<lparr>c_ctx = ctx, c_method = ''POST'', c_path = ''file_uploads/'' @ ident @ ''/send'',
      c_query = None,
      c_body = BufferBody
        (encode_form b (upload_form fileName (concat (chunks file)) partNumber)),
      c_contentTypeOverride = ctfd\<rparr>"

definition send_reply :: "call \<Rightarrow> error + Response \<Rightarrow> error option outcome" where
  "send_reply c answer =
     (case answer of
        Inl e \<Rightarrow>
          \<lparr>calls = [c], logs = [],
           result = Some (Errorf_w ''FileUploadClient.Send: request failed: '' e)\<rparr>
      | Inr res \<Rightarrow>
          \<lparr>calls = [c],
           logs = close_log ''FileUploadClient.Send: failed to close response body: ''
                    (close_err (Body res)),
           result =
             (if StatusCode res = 200 then None
              else Some (Errorf_d ''FileUploadClient.Send: unexpected status code: ''
                           (StatusCode res)))\<rparr>)"

definition create_call :: "Context \<Rightarrow> FileUploadCreateRequest option \<Rightarrow> call" where
  "create_call ctx requestBody =
     \<lparr>c_ctx = ctx, c_method = ''POST'', c_path = ''file_uploads'', c_query = None,
      c_body = CreateBody requestBody, c_contentTypeOverride = []\<rparr>"

definition create_reply ::
  "(string \<Rightarrow> bool) \<Rightarrow> error + Response \<Rightarrow> error + FileUpload" where
  "create_reply rfc answer =
     (case answer of
        Inl e \<Rightarrow> Inl e
      | Inr res \<Rightarrow>
          if StatusCode res = 200 then
            (case Decode rfc (Body res) of
               Inl e \<Rightarrow> Inl (Errorf_w ''handleFileUploadResponse: failed to decode json: '' e)
             | Inr r \<Rightarrow> Inr r)
          else Inl (Errorf_d ''FileUploadClient.Create: unexpected status code: ''
                      (StatusCode res)))"

text \<open>The same client over a transport whose responses carry other bodies.\<close>

definition with_bodies :: "(call \<Rightarrow> ReadCloser) \<Rightarrow> FileUploadClient \<Rightarrow> FileUploadClient" where
  "with_bodies g fuc =
     \<lparr>apiClient =
        \<lparr>request = (\<lambda>c. case request (apiClient fuc) c of
                            Inl e \<Rightarrow> Inl e
                          | Inr res \<Rightarrow> Inr (res\<lparr>Body := g c\<rparr>))\<rparr>\<rparr>"

text \<open>A client whose transport gives one answer to every call.\<close>

definition answering :: "error + Response \<Rightarrow> FileUploadClient" where
  "answering a = \<lparr>apiClient = \<lparr>request = (\<lambda>c. a)\<rparr>\<rparr>"

definition response :: "int \<Rightarrow> body_content \<Rightarrow> Response" where
  "response code bc = \<lparr>StatusCode = code, Body = \<lparr>content = bc, close_err = None\<rparr>\<rparr>"

subsection \<open>Reading a decimal text\<close>

definition digit_value :: "char \<Rightarrow> nat" where
  "digit_value c =
     (case map_of (zip ''0123456789'' [0, 1, 2, 3, 4, 5, 6, 7, 8, 9]) c of
        Some d \<Rightarrow> d
      | None \<Rightarrow> 0)"

definition digits_value :: "string \<Rightarrow> nat" where
  "digits_value s = foldl (\<lambda>a c. 10 * a + digit_value c) 0 s"

definition decimal_value :: "string \<Rightarrow> int" where
  "decimal_value s =
     (case s of
        [] \<Rightarrow> 0
      | c # r \<Rightarrow> if c = CHR ''-'' then - int (digits_value r) else int (digits_value s))"

subsection \<open>Reading a multipart form\<close>

text \<open>
  What a receiver finds in a body under the boundary \<open>b\<close>. The body, taken after a
  line break, is cut at every delimiter (a line break, two hyphens and \<open>b\<close>); what
  comes before the first delimiter is skipped. The text after a delimiter is the
  closing mark when it begins with two hyphens; otherwise it is a part: the end of the
  delimiter line, the header lines up to the first empty line, and the content.
  A part of a form has a header \<open>Content-Disposition: form-data\<close> with a quoted
  \<open>name\<close> and, for a file, a quoted \<open>filename\<close>; in a quoted text a backslash
  stands before the character it protects.
\<close>

record read_part =
  rp_name :: string
  rp_filename :: "string option"
  rp_content :: string

fun strip_prefix :: "string \<Rightarrow> string \<Rightarrow> string option" where
  "strip_prefix [] s = Some s"
| "strip_prefix (p # ps) [] = None"
| "strip_prefix (p # ps) (c # cs) = (if p = c then strip_prefix ps cs else None)"

fun split_first :: "string \<Rightarrow> string \<Rightarrow> (string \<times> string) option" where
  "split_first d [] = (if d = [] then Some ([], []) else None)"
| "split_first d (c # cs) =
     (if take (length d) (c # cs) = d then Some ([], drop (length d) (c # cs))
      else map_option (\<lambda>xr. (c # fst xr, snd xr)) (split_first d cs))"

fun split_on :: "string \<Rightarrow> string \<Rightarrow> string \<Rightarrow> string list" where
  "split_on d acc [] = [rev acc]"
| "split_on d acc (c # cs) =
     (if take (length d) (c # cs) = d
      then rev acc # split_on d [] (drop (length d - 1) cs)
      else split_on d (c # acc) cs)"

fun unquote :: "string \<Rightarrow> (string \<times> string) option" where
  "unquote [] = None"
| "unquote (c # cs) =
     (if c = CHR 0x22 then Some ([], cs)
      else if c = CHR 0x5C then
        (case cs of
           [] \<Rightarrow> None
         | e # r \<Rightarrow> map_option (\<lambda>vr. (e # fst vr, snd vr)) (unquote r))
      else map_option (\<lambda>vr. (c # fst vr, snd vr)) (unquote cs))"

definition parse_disposition :: "string \<Rightarrow> (string \<times> string option) option" where
  "parse_disposition v =
     (case strip_prefix (''form-data; name='' @ [CHR 0x22]) v of
        None \<Rightarrow> None
      | Some r \<Rightarrow>
         (case unquote r of
            None \<Rightarrow> None
          | Some nr \<Rightarrow>
              if snd nr = [] then Some (fst nr, None)
              else (case strip_prefix (''; filename='' @ [CHR 0x22]) (snd nr) of
                      None \<Rightarrow> None
                    | Some r' \<Rightarrow>
                       (case unquote r' of
                          None \<Rightarrow> None
                        | Some fr \<Rightarrow>
                            if snd fr = [] then Some (fst nr, Some (fst fr)) else None))))"

fun first_some :: "('a \<Rightarrow> 'b option) \<Rightarrow> 'a list \<Rightarrow> 'b option" where
  "first_some f [] = None"
| "first_some f (x # xs) = (case f x of Some y \<Rightarrow> Some y | None \<Rightarrow> first_some f xs)"

definition read_one :: "string \<Rightarrow> read_part option" where
  "read_one s =
     (case strip_prefix [CHR 0x0D, CHR 0x0A] s of
        Some t \<Rightarrow> None
      | None \<Rightarrow>
         (case split_first [CHR 0x0D, CHR 0x0A, CHR 0x0D, CHR 0x0A] s of
            None \<Rightarrow> None
          | Some hc \<Rightarrow>
             (case first_some (strip_prefix ''Content-Disposition: '')
                     (split_on [CHR 0x0D, CHR 0x0A] [] (fst hc)) of
                None \<Rightarrow> None
              | Some v \<Rightarrow>
                 (case parse_disposition v of
                    None \<Rightarrow> None
                  | Some nf \<Rightarrow>
                      Some \<lparr>rp_name = fst nf, rp_filename = snd nf, rp_content = snd hc\<rparr>))))"

fun read_segments :: "string list \<Rightarrow> read_part list option" where
  "read_segments [] = None"
| "read_segments (s # ss) =
     (case strip_prefix ''--'' s of
        Some t \<Rightarrow> Some []
      | None \<Rightarrow>
         (case strip_prefix [CHR 0x0D, CHR 0x0A] s of
            None \<Rightarrow> None
          | Some t \<Rightarrow>
             (case read_one t of
                None \<Rightarrow> None
              | Some p \<Rightarrow> map_option ((#) p) (read_segments ss))))"

definition read_form :: "string \<Rightarrow> string \<Rightarrow> read_part list option" where
  "read_form b body =
     (case split_on ([CHR 0x0D, CHR 0x0A] @ ''--'' @ b) [] ([CHR 0x0D, CHR 0x0A] @ body) of
        [] \<Rightarrow> None
      | preamble # segments \<Rightarrow> read_segments segments)"

fun read_body :: "string \<Rightarrow> request_body \<Rightarrow> read_part list option" where
  "read_body b (BufferBody s) = read_form b s"
| "read_body b (CreateBody r) = None"

text \<open>
  A text occurs in another when it begins at one of its positions. The second
  predicate says that the text \<open>d\<close> begins at no position of \<open>x\<close> when \<open>z\<close> follows
  \<open>x\<close>.
\<close>

fun occurs_in :: "string \<Rightarrow> string \<Rightarrow> bool" where
  "occurs_in d [] = (d = [])"
| "occurs_in d (c # cs) = (take (length d) (c # cs) = d \<or> occurs_in d cs)"

fun nomatch :: "string \<Rightarrow> string \<Rightarrow> string \<Rightarrow> bool" where
  "nomatch d [] z = True"
| "nomatch d (c # cs) z = (take (length d) (c # cs @ z) \<noteq> d \<and> nomatch d cs z)"

text \<open>A name as a receiver reads it back: line breaks have become \<open>%0D\<close> and \<open>%0A\<close>.\<close>

fun percent_breaks :: "string \<Rightarrow> string" where
  "percent_breaks [] = []"
| "percent_breaks (c # cs) =
     (if c = CHR 0x0D then ''%0D'' @ percent_breaks cs
      else if c = CHR 0x0A then ''%0A'' @ percent_breaks cs
      else c # percent_breaks cs)"

definition hex_digits :: "string \<Rightarrow> bool" where
  "hex_digits b = list_all (\<lambda>c. c \<in> set ''0123456789abcdef'') b"

section \<open>Example inputs\<close>

definition hello :: reader where
  "hello = \<lparr>chunks = [''hel'', ''lo''], final = None\<rparr>"

definition broken :: reader where
  "broken = \<lparr>chunks = [''hel''], final = Some (Err ''unexpected EOF'')\<rparr>"

definition zeros :: string where
  "zeros = ''000000000000000000000000000000000000000000000000000000000000''"

definition ones :: string where
  "ones = ''111111111111111111111111111111111111111111111111111111111111''"

text \<open>
  A content that carries, after one byte, a delimiter of the boundary \<open>zeros\<close> and
  the text of a \<open>part_number\<close> field; a file name with a line break in it.
\<close>

definition smuggled :: reader where
  "smuggled =
     \<lparr>chunks =
        [''x'' @ [CHR 0x0D, CHR 0x0A] @ ''--'' @ zeros @ [CHR 0x0D, CHR 0x0A] @
         ''Content-Disposition: form-data; name='' @ [CHR 0x22] @ ''part_number'' @ [CHR 0x22] @
         [CHR 0x0D, CHR 0x0A, CHR 0x0D, CHR 0x0A] @ ''3''],
      final = None\<rparr>"

definition one_byte :: reader where
  "one_byte = \<lparr>chunks = [''x''], final = None\<rparr>"

definition broken_name :: string where
  "broken_name = ''a'' @ [CHR 0x0D, CHR 0x0A] @ ''b.txt''"


definition multi_part_request :: "string \<Rightarrow> 32 word option \<Rightarrow> FileUploadCreateRequest" where
  "multi_part_request name n =
     \<lparr>Mode = FileUploadModeMultiPart, Filename = name, ContentType = [],
      NumberOfParts = n, ExternalURL = []\<rparr>"

definition external_url_request :: "string \<Rightarrow> FileUploadCreateRequest" where
  "external_url_request url =
     \<lparr>Mode = FileUploadModeExternalURL, Filename = ''a.png'', ContentType = [],
      NumberOfParts = None, ExternalURL = url\<rparr>"

definition status_body :: "string \<Rightarrow> body_content" where
  "status_body s = JsonBody (JObject [(''id'', JString ''u1''), (''status'', JString s)])"

definition record_u1 :: "string \<Rightarrow> FileUpload" where
  "record_u1 s = zero_FileUpload\<lparr>ID := ''u1'', Status := s\<rparr>"

definition one_file :: "string \<Rightarrow> error + file_state" where
  "one_file path =
     (if path = ''/tmp/up/a.txt''
      then Inr \<lparr>fs_content = hello, fs_stat_err = None, fs_close_err = None\<rparr>
      else if path = ''/tmp/up/gone.txt''
      then Inr \<lparr>fs_content = hello, fs_stat_err = Some (Err ''stat: bad file descriptor''),
                fs_close_err = None\<rparr>
      else Inl (Err ''open: no such file or directory''))"

section \<open>The form writer on a fresh buffer\<close>

lemma sort_two_headers:
  "sort_key fst [(''Content-Type'', x), (''Content-Disposition'', y)]
     = [(''Content-Disposition'', y), (''Content-Type'', x)]"
  by simp

lemma CreateFormFile_new:
  "CreateFormFile (NewWriter b) name filename =
     Inr \<lparr>wbuf = ''--'' @ b @ CRLF @
             ''Content-Disposition: form-data; name='' @ quoted (escapeQuotes name) @
               ''; filename='' @ quoted (escapeQuotes filename) @ CRLF @
             ''Content-Type: application/octet-stream'' @ CRLF @ CRLF,
          boundary = b, lastpart = open_part\<rparr>"
  unfolding CreateFormFile_def CreatePart_def NewWriter_def Set_header_def header_lines_def
    open_part_def Let_def
  by (simp add: sort_two_headers)

lemma copy_loop_open:
  "lastpart W = open_part \<Longrightarrow> copy_loop W cs fin = (W\<lparr>wbuf := wbuf W @ concat cs\<rparr>, fin)"
  by (induction cs arbitrary: W) (auto simp: part_Write_def open_part_def)

lemma WriteField_open:
  "lastpart W = open_part \<Longrightarrow>
   WriteField W name v =
     Inr (W\<lparr>wbuf := wbuf W @ CRLF @ ''--'' @ boundary W @ CRLF @
                ''Content-Disposition: form-data; name='' @ quoted (escapeQuotes name) @ CRLF @
                CRLF @ v\<rparr>)"
  unfolding WriteField_def CreateFormField_def CreatePart_def Set_header_def header_lines_def
    open_part_def Let_def part_Write_def part_close_def
  by simp

lemma Writer_Close_open:
  "lastpart W = open_part \<Longrightarrow>
   Writer_Close W =
     Inr (W\<lparr>wbuf := wbuf W @ CRLF @ ''--'' @ boundary W @ ''--'' @ CRLF, lastpart := None\<rparr>)"
  unfolding Writer_Close_def open_part_def part_close_def by simp

section \<open>Send, by the end of its content stream\<close>

lemma Send_read_error:
  "final file = Some e \<Longrightarrow>
   Send ctfd b fuc ctx ident file fileName partNumber =
     \<lparr>calls = [], logs = [],
      result = Some (Errorf_w ''FileUploadClient.Send: failed to copy file to form: '' e)\<rparr>"
  unfolding Send_def io_Copy_def Let_def
  by (simp add: CreateFormFile_new copy_loop_open)

lemma Send_read_ok:
  "final file = None \<Longrightarrow>
   Send ctfd b fuc ctx ident file fileName partNumber =
     send_reply (send_call ctfd b ctx ident file fileName partNumber)
       (request (apiClient fuc) (send_call ctfd b ctx ident file fileName partNumber))"
  unfolding Send_def io_Copy_def Let_def
  by (cases partNumber)
     (simp_all add: CreateFormFile_new copy_loop_open WriteField_open Writer_Close_open
        send_reply_def send_call_def upload_form_def encode_form_def MethodPost_def StatusOK_def
        split: sum.splits)

section \<open>Decimal texts\<close>

lemma digit_value_nth: "k < 10 \<Longrightarrow> digit_value (''0123456789'' ! k) = k"
proof -
  assume "k < 10"
  then consider "k = 0" | "k = 1" | "k = 2" | "k = 3" | "k = 4" | "k = 5" | "k = 6"
    | "k = 7" | "k = 8" | "k = 9"
    by atomize_elim arith
  then show ?thesis
    by cases (simp_all add: digit_value_def)
qed

lemma digits_value_snoc: "digits_value (s @ [c]) = 10 * digits_value s + digit_value c"
  by (simp add: digits_value_def)

lemma digits_value_decimal: "digits_value (decimal n) = n"
proof (induction n rule: decimal.induct)
  case (1 n)
  show ?case
  proof (cases "n < 10")
    case True
    then show ?thesis
      by (subst decimal.simps) (simp add: digits_value_def digit_value_nth)
  next
    case False
    then have "digits_value (decimal (n div 10)) = n div 10"
      using 1 by simp
    with False show ?thesis
      by (subst decimal.simps) (simp add: digits_value_snoc digit_value_nth)
  qed
qed

lemma digit_nth_not_minus: "k < 10 \<Longrightarrow> ''0123456789'' ! k \<noteq> CHR ''-''"
proof -
  assume "k < 10"
  then consider "k = 0" | "k = 1" | "k = 2" | "k = 3" | "k = 4" | "k = 5" | "k = 6"
    | "k = 7" | "k = 8" | "k = 9"
    by atomize_elim arith
  then show ?thesis
    by cases simp_all
qed

lemma decimal_head: "\<exists>c r. decimal n = c # r \<and> c \<noteq> CHR ''-''"
proof (induction n rule: decimal.induct)
  case (1 n)
  show ?case
  proof (cases "n < 10")
    case True
    then show ?thesis
      by (subst decimal.simps) (simp add: digit_nth_not_minus)
  next
    case False
    then obtain c r where "decimal (n div 10) = c # r" "c \<noteq> CHR ''-''"
      using 1 by blast
    with False show ?thesis
      by (subst decimal.simps) simp
  qed
qed

lemma decimal_value_Itoa: "decimal_value (Itoa i) = i"
proof (cases "i < 0")
  case True
  then show ?thesis
    by (simp add: decimal_value_def Itoa_def digits_value_decimal)
next
  case False
  obtain c r where cr: "decimal (nat i) = c # r" "c \<noteq> CHR ''-''"
    using decimal_head by blast
  have "digits_value (c # r) = nat i"
    using digits_value_decimal [of "nat i"] cr by simp
  with False cr show ?thesis
    by (simp add: decimal_value_def Itoa_def)
qed


section \<open>Send: the calls it makes and what it returns\<close>

lemma Send_calls:
  "calls (Send ctfd b fuc ctx ident file fileName partNumber) =
     (if final file = None then [send_call ctfd b ctx ident file fileName partNumber] else [])"
  by (cases "final file") (auto simp: Send_read_ok Send_read_error send_reply_def split: sum.splits)

lemma Send_result:
  "result (Send ctfd b fuc ctx ident file fileName partNumber) =
     (case final file of
        Some e \<Rightarrow> Some (Errorf_w ''FileUploadClient.Send: failed to copy file to form: '' e)
      | None \<Rightarrow>
         result (send_reply (send_call ctfd b ctx ident file fileName partNumber)
           (request (apiClient fuc) (send_call ctfd b ctx ident file fileName partNumber))))"
  by (cases "final file") (auto simp: Send_read_ok Send_read_error)

section \<open>Create: the call it makes and what it returns\<close>

lemma Create_calls: "calls (Create rfc fuc ctx rb) = [create_call ctx rb]"
  by (simp add: Create_def create_call_def MethodPost_def Let_def split: sum.splits)

lemma Create_result:
  "result (Create rfc fuc ctx rb) = create_reply rfc (request (apiClient fuc) (create_call ctx rb))"
  by (simp add: Create_def create_call_def create_reply_def handleFileUploadResponse_def
      MethodPost_def StatusOK_def Let_def split: sum.splits)

section \<open>SendFileByPath, by what the file system finds\<close>

lemma SendFileByPath_result:
  "result (SendFileByPath ctfd b fs fuc ctx ident filePath partNumber) =
     (case fs filePath of
        Inl e \<Rightarrow>
          Some (Errorf_w (''SendFileByPath: failed to open file '' @ filePath @ '': '') e)
      | Inr st \<Rightarrow>
          (case fs_stat_err st of
             Some e \<Rightarrow>
               Some (Errorf_w
                 (''SendFileByPath: failed to get file info for '' @ filePath @ '': '') e)
           | None \<Rightarrow>
               result (Send ctfd b fuc ctx ident (fs_content st) (basename filePath)
                 partNumber)))"
  by (simp add: SendFileByPath_def os_Open_def File_Stat_def Let_def
      split: sum.splits option.splits)

lemma SendFileByPath_calls:
  "calls (SendFileByPath ctfd b fs fuc ctx ident filePath partNumber) =
     (case fs filePath of
        Inl e \<Rightarrow> []
      | Inr st \<Rightarrow>
          (case fs_stat_err st of
             Some e \<Rightarrow> []
           | None \<Rightarrow>
               calls (Send ctfd b fuc ctx ident (fs_content st) (basename filePath)
                 partNumber)))"
  by (simp add: SendFileByPath_def os_Open_def File_Stat_def Let_def
      split: sum.splits option.splits)

section \<open>The base name of a path\<close>

lemma strip_slashes_rev_keep: "c \<noteq> CHR ''/'' \<Longrightarrow> strip_slashes_rev (c # r) = c # r"
  by (cases r) simp_all

lemma basename_last_element:
  assumes "filePath \<noteq> []" and "last filePath \<noteq> CHR ''/''"
  shows "(\<exists>dir. filePath = dir @ basename filePath \<and> (dir = [] \<or> last dir = CHR ''/''))
    \<and> CHR ''/'' \<notin> set (basename filePath)"
proof -
  obtain c r where cr: "rev filePath = c # r"
    using assms(1) by (cases "rev filePath") auto
  then have fp: "filePath = rev r @ [c]"
    by (metis rev_rev_ident rev.simps(2))
  then have c: "c \<noteq> CHR ''/''"
    using assms(2) by simp
  let ?t = "takeWhile (\<lambda>x. x \<noteq> CHR ''/'') r"
  let ?d = "dropWhile (\<lambda>x. x \<noteq> CHR ''/'') r"
  have bn: "basename filePath = rev ?t @ [c]"
    using cr c by (simp add: basename_def strip_slashes_rev_keep)
  have "r = ?t @ ?d" by simp
  then have "rev r = rev ?d @ rev ?t"
    by (metis rev_append)
  then have split: "filePath = rev ?d @ basename filePath"
    using fp bn by simp
  have dir: "rev ?d = [] \<or> last (rev ?d) = CHR ''/''"
  proof (cases "?d")
    case Nil
    then show ?thesis by simp
  next
    case (Cons x xs)
    then have "x = CHR ''/''"
      using hd_dropWhile [of "\<lambda>x. x \<noteq> CHR ''/''" r] by (metis list.sel(1) list.distinct(1))
    with Cons show ?thesis by simp
  qed
  have "CHR ''/'' \<notin> set ?t"
    using set_takeWhileD by fastforce
  then have "CHR ''/'' \<notin> set (basename filePath)"
    using bn c by auto
  with split dir show ?thesis by blast
qed

section \<open>Reading back what the form writer wrote\<close>

lemma strip_prefix_append: "strip_prefix p (p @ s) = Some s"
  by (induction p) simp_all

lemma nomatch_append: "nomatch d (x @ y) z = (nomatch d x (y @ z) \<and> nomatch d y z)"
  by (induction x) simp_all

lemma nomatch_no_head: "h \<notin> set x \<Longrightarrow> nomatch (h # d) x z"
  by (induction x) auto

lemma split_on_step:
  "d \<noteq> [] \<Longrightarrow> nomatch d x (d @ r) \<Longrightarrow> split_on d acc (x @ d @ r) = (rev acc @ x) # split_on d [] r"
proof (induction x arbitrary: acc)
  case Nil
  then obtain h t where d: "d = h # t" by (cases d) auto
  show ?case by (simp add: d)
next
  case (Cons c cs)
  then show ?case by simp
qed

lemma split_on_last: "nomatch d x [] \<Longrightarrow> split_on d acc x = [rev acc @ x]"
  by (induction x arbitrary: acc) simp_all

lemma split_first_step:
  "d \<noteq> [] \<Longrightarrow> nomatch d x (d @ r) \<Longrightarrow> split_first d (x @ d @ r) = Some (x, r)"
proof (induction x)
  case Nil
  then obtain h t where d: "d = h # t" by (cases d) auto
  show ?case by (simp add: d)
next
  case (Cons c cs)
  then show ?case by simp
qed

lemma no_occurrence_nomatch:
  assumes "h \<notin> set t" and "\<not> occurs_in (h # t) x"
  shows "nomatch (h # t) x ((h # t) @ z)"
  using assms(2)
proof (induction x)
  case Nil
  show ?case by simp
next
  case (Cons c cs)
  let ?d = "h # t"
  from Cons.prems have here: "take (length ?d) (c # cs) \<noteq> ?d" and rest: "\<not> occurs_in ?d cs"
    by simp_all
  have "take (length ?d) (c # cs @ ?d @ z) \<noteq> ?d"
  proof
    assume eq: "take (length ?d) (c # cs @ ?d @ z) = ?d"
    show False
    proof (cases "length ?d \<le> length (c # cs)")
      case True
      then have "take (length ?d) (c # cs @ ?d @ z) = take (length ?d) (c # cs)"
        by simp
      with eq here show False by simp
    next
      case False
      then have lt: "length cs < length t" by simp
      have "(take (length ?d) ((c # cs) @ ?d @ z)) ! length (c # cs) = ((c # cs) @ ?d @ z) ! length (c # cs)"
        using False by (intro nth_take) simp
      also have "\<dots> = h"
        using nth_append_length [of "c # cs" h "t @ z"] by simp
      finally have "?d ! length (c # cs) = h"
        using eq by simp
      then have "t ! length cs = h" by simp
      then have "h \<in> set t"
        using lt by (metis nth_mem)
      with assms(1) show False by simp
    qed
  qed
  with Cons.IH [OF rest] show ?case by simp
qed

lemma escapeQuotes_no_CR: "CHR 0x0D \<notin> set (escapeQuotes s)"
  by (induction s) simp_all

lemma unquote_escapeQuotes:
  "unquote (escapeQuotes s @ CHR 0x22 # r) = Some (percent_breaks s, r)"
  by (induction s) simp_all


lemma read_one_two_lines:
  assumes "CHR 0x0D \<notin> set L1" and "L1 \<noteq> []" and "CHR 0x0D \<notin> set L2" and "L2 \<noteq> []"
    and "strip_prefix ''Content-Disposition: '' L1 = Some v"
    and "parse_disposition v = Some nf"
  shows "read_one (L1 @ [CHR 0x0D, CHR 0x0A] @ L2 @ [CHR 0x0D, CHR 0x0A, CHR 0x0D, CHR 0x0A] @ B) =
     Some \<lparr>rp_name = fst nf, rp_filename = snd nf, rp_content = B\<rparr>"
proof -
  let ?D = "[CHR 0x0D, CHR 0x0A, CHR 0x0D, CHR 0x0A]"
  let ?N = "[CHR 0x0D, CHR 0x0A]"
  obtain c1 t1 where L1: "L1 = c1 # t1" and c1: "c1 \<noteq> CHR 0x0D"
    using assms(1,2) by (cases L1) auto
  obtain c2 t2 where L2: "L2 = c2 # t2" and c2: "c2 \<noteq> CHR 0x0D"
    using assms(3,4) by (cases L2) auto
  have no_break: "strip_prefix ?N (L1 @ ?N @ L2 @ ?D @ B) = None"
    using c1 by (simp add: L1)
  have "nomatch ?D L1 ((?N @ L2) @ ?D @ B)"
    using assms(1) by (rule nomatch_no_head)
  moreover have "nomatch ?D ?N (L2 @ ?D @ B)"
    using c2 by (simp add: L2)
  moreover have "nomatch ?D L2 (?D @ B)"
    using assms(3) by (rule nomatch_no_head)
  ultimately have "nomatch ?D (L1 @ ?N @ L2) (?D @ B)"
    by (simp add: nomatch_append)
  then have "split_first ?D ((L1 @ ?N @ L2) @ ?D @ B) = Some (L1 @ ?N @ L2, B)"
    by (intro split_first_step) simp_all
  then have cut: "split_first ?D (L1 @ ?N @ L2 @ ?D @ B) = Some (L1 @ ?N @ L2, B)"
    by simp
  have "nomatch ?N L1 (?N @ L2)"
    using assms(1) by (rule nomatch_no_head)
  then have "split_on ?N [] (L1 @ ?N @ L2) = (rev [] @ L1) # split_on ?N [] L2"
    by (intro split_on_step) simp_all
  moreover have "split_on ?N [] L2 = [rev [] @ L2]"
    using assms(3) by (intro split_on_last nomatch_no_head)
  ultimately have lines: "split_on ?N [] (L1 @ ?N @ L2) = [L1, L2]"
    by simp
  show ?thesis
    unfolding read_one_def
    by (simp only: no_break cut lines option.case prod.sel first_some.simps assms(5,6))
qed

lemma read_one_one_line:
  assumes "CHR 0x0D \<notin> set L" and "L \<noteq> []"
    and "strip_prefix ''Content-Disposition: '' L = Some v"
    and "parse_disposition v = Some nf"
  shows "read_one (L @ [CHR 0x0D, CHR 0x0A, CHR 0x0D, CHR 0x0A] @ V) =
     Some \<lparr>rp_name = fst nf, rp_filename = snd nf, rp_content = V\<rparr>"
proof -
  let ?D = "[CHR 0x0D, CHR 0x0A, CHR 0x0D, CHR 0x0A]"
  let ?N = "[CHR 0x0D, CHR 0x0A]"
  obtain c t where L: "L = c # t" and c: "c \<noteq> CHR 0x0D"
    using assms(1,2) by (cases L) auto
  have no_break: "strip_prefix ?N (L @ ?D @ V) = None"
    using c by (simp add: L)
  have "nomatch ?D L (?D @ V)"
    using assms(1) by (rule nomatch_no_head)
  then have cut: "split_first ?D (L @ ?D @ V) = Some (L, V)"
    by (intro split_first_step) simp_all
  have "split_on ?N [] L = [rev [] @ L]"
    using assms(1) by (intro split_on_last nomatch_no_head)
  then have lines: "split_on ?N [] L = [L]"
    by simp
  show ?thesis
    unfolding read_one_def
    by (simp only: no_break cut lines option.case prod.sel first_some.simps assms(3,4))
qed

lemma no_hyphens_take:
  "strip_prefix ''--'' s = None \<Longrightarrow> take (Suc (Suc n)) s \<noteq> CHR ''-'' # CHR ''-'' # b"
proof (cases s)
  case Nil
  then show ?thesis by simp
next
  case (Cons c r)
  assume "strip_prefix ''--'' s = None"
  with Cons show ?thesis
    by (cases r) (auto split: if_splits)
qed

lemma nomatch_line:
  assumes "CHR 0x0D \<notin> set L" and "strip_prefix ''--'' (L @ z) = None"
  shows "nomatch (CHR 0x0D # CHR 0x0A # CHR ''-'' # CHR ''-'' # b) (CHR 0x0D # CHR 0x0A # L) z"
proof -
  have "nomatch (CHR 0x0D # CHR 0x0A # CHR ''-'' # CHR ''-'' # b) L z"
    using assms(1) by (rule nomatch_no_head)
  then show ?thesis
    using no_hyphens_take [OF assms(2), of "length b" b] by simp
qed


lemma decimal_digits: "set (decimal n) \<subseteq> set ''0123456789''"
proof (induction n rule: decimal.induct)
  case (1 n)
  have digit: "''0123456789'' ! k \<in> set ''0123456789''" if "k < 10" for k
    using that by (intro nth_mem) simp
  show ?case
  proof (cases "n < 10")
    case True
    then show ?thesis
      using digit [of n] by (subst decimal.simps) simp
  next
    case False
    then have "set (decimal (n div 10)) \<subseteq> set ''0123456789''"
      using 1 by simp
    moreover have "''0123456789'' ! (n mod 10) \<in> set ''0123456789''"
      by (intro digit) simp
    ultimately show ?thesis
      using False by (subst decimal.simps) simp
  qed
qed

lemma Itoa_no_CR: "CHR 0x0D \<notin> set (Itoa i)"
  using decimal_digits [of "nat i"] decimal_digits [of "nat (- i)"]
  by (auto simp: Itoa_def)

lemma Itoa_no_hyphens: "strip_prefix ''--'' (Itoa i @ z) = None"
proof -
  obtain c r where "decimal (nat i) = c # r" "c \<noteq> CHR ''-''"
    using decimal_head by blast
  moreover obtain c' r' where "decimal (nat (- i)) = c' # r'" "c' \<noteq> CHR ''-''"
    using decimal_head by blast
  ultimately show ?thesis
    by (simp add: Itoa_def)
qed

lemma parse_disposition_file:
  "parse_disposition
     (''form-data; name='' @ quoted (escapeQuotes ''file'') @
      ''; filename='' @ quoted (escapeQuotes fileName)) =
   Some (''file'', Some (percent_breaks fileName))"
  using unquote_escapeQuotes [of fileName "[]"]
  by (simp add: parse_disposition_def quoted_def)

lemma parse_disposition_field:
  "parse_disposition (''form-data; name='' @ quoted (escapeQuotes ''part_number'')) =
   Some (''part_number'', None)"
  by (simp add: parse_disposition_def quoted_def)

lemma read_form_upload:
  assumes b: "CHR 0x0D \<notin> set b"
    and clean: "\<not> occurs_in ([CHR 0x0D, CHR 0x0A] @ ''--'' @ b) ([CHR 0x0D, CHR 0x0A] @ B)"
  shows "read_form b (encode_form b (upload_form fileName B partNumber)) =
     Some (\<lparr>rp_name = ''file'', rp_filename = Some (percent_breaks fileName), rp_content = B\<rparr> #
       (case partNumber of
          None \<Rightarrow> []
        | Some p \<Rightarrow>
            [\<lparr>rp_name = ''part_number'', rp_filename = None, rp_content = Itoa (sint p)\<rparr>]))"
proof -
  let ?N = "[CHR 0x0D, CHR 0x0A]"
  define d where "d = CHR 0x0D # CHR 0x0A # CHR ''-'' # CHR ''-'' # b"
  define L1 where "L1 = ''Content-Disposition: form-data; name='' @ quoted (escapeQuotes ''file'') @
      ''; filename='' @ quoted (escapeQuotes fileName)"
  define L2 where "L2 = ''Content-Type: application/octet-stream''"
  define L3 where "L3 = ''Content-Disposition: form-data; name='' @ quoted (escapeQuotes ''part_number'')"
  define seg1 where "seg1 = CHR 0x0D # CHR 0x0A # L1 @ CHR 0x0D # CHR 0x0A # L2 @ ?N @ ?N @ B"
  define tail where "tail = ''--'' @ ?N"
  define p1 where "p1 = \<lparr>rp_name = ''file'', rp_filename = Some (percent_breaks fileName), rp_content = B\<rparr>"
  have dne: "d \<noteq> []" by (simp add: d_def)
  have L1cr: "CHR 0x0D \<notin> set L1"
    using escapeQuotes_no_CR [of fileName] by (simp add: L1_def quoted_def)
  have L2cr: "CHR 0x0D \<notin> set L2" by (simp add: L2_def)
  have L3cr: "CHR 0x0D \<notin> set L3" by (simp add: L3_def quoted_def)
  have L1h: "strip_prefix ''--'' (L1 @ z) = None" for z by (simp add: L1_def)
  have L2h: "strip_prefix ''--'' (L2 @ z) = None" for z by (simp add: L2_def)
  have L3h: "strip_prefix ''--'' (L3 @ z) = None" for z by (simp add: L3_def)
  have content: "nomatch d (?N @ B) (d @ r)" for r
    using no_occurrence_nomatch [of "CHR 0x0D" "CHR 0x0A # CHR ''-'' # CHR ''-'' # b" "?N @ B" r]
      b clean by (simp add: d_def)
  have blank: "nomatch d ?N (?N @ z)" for z
    by (simp add: d_def)
  have nm1: "nomatch d seg1 (d @ r)" for r
  proof -
    have "nomatch d (CHR 0x0D # CHR 0x0A # L1) ((CHR 0x0D # CHR 0x0A # L2 @ ?N @ ?N @ B) @ d @ r)"
      unfolding d_def using L1cr L1h by (rule nomatch_line)
    moreover have "nomatch d (CHR 0x0D # CHR 0x0A # L2) ((?N @ ?N @ B) @ d @ r)"
      unfolding d_def using L2cr L2h by (rule nomatch_line)
    moreover have "nomatch d ?N ((?N @ B) @ d @ r)"
      using blank [of "B @ d @ r"] by simp
    moreover note content [of r]
    ultimately have "nomatch d ((CHR 0x0D # CHR 0x0A # L1) @ (CHR 0x0D # CHR 0x0A # L2) @ ?N @ (?N @ B)) (d @ r)"
      by (simp only: nomatch_append append_assoc) simp
    then show ?thesis by (simp add: seg1_def)
  qed
  have tl: "nomatch d tail []"
    by (simp add: d_def tail_def)
  have last: "split_on d [] tail = [tail]"
    using split_on_last [OF tl, of "[]"] by simp
  have r1: "read_one (L1 @ ?N @ L2 @ [CHR 0x0D, CHR 0x0A, CHR 0x0D, CHR 0x0A] @ B) = Some p1"
    using read_one_two_lines [of L1 L2 _ "(''file'', Some (percent_breaks fileName))" B]
      L1cr L2cr parse_disposition_file [of fileName]
    by (simp add: L1_def L2_def p1_def strip_prefix_append)
  have s1: "read_segments (seg1 # ss) = map_option ((#) p1) (read_segments ss)" for ss
    using r1 by (simp add: seg1_def)
  have st: "read_segments (tail # ss) = Some []" for ss
    by (simp add: tail_def)
  show ?thesis
  proof (cases partNumber)
    case None
    have "?N @ encode_form b (upload_form fileName B None) = [] @ d @ seg1 @ d @ tail"
      by (simp add: encode_form_def upload_form_def CRLF_def d_def seg1_def tail_def L1_def L2_def)
    moreover have "split_on d [] ([] @ d @ seg1 @ d @ tail) = [[], seg1, tail]"
      using split_on_step [OF dne, of "[]" "seg1 @ d @ tail" "[]"]
        split_on_step [OF dne nm1 [of tail], of "[]"] last
      by simp
    ultimately have "read_form b (encode_form b (upload_form fileName B None)) =
        read_segments [seg1, tail]"
      by (simp add: read_form_def d_def)
    then show ?thesis
      using None by (simp only: s1 st) (simp add: p1_def)
  next
    case (Some p)
    define V where "V = Itoa (sint p)"
    define seg2 where "seg2 = CHR 0x0D # CHR 0x0A # L3 @ ?N @ ?N @ V"
    define p2 where "p2 = \<lparr>rp_name = ''part_number'', rp_filename = None, rp_content = V\<rparr>"
    have nm2: "nomatch d seg2 (d @ r)" for r
    proof -
      have "nomatch d (CHR 0x0D # CHR 0x0A # L3) ((?N @ ?N @ V) @ d @ r)"
        unfolding d_def using L3cr L3h by (rule nomatch_line)
      moreover have "nomatch d ?N ((?N @ V) @ d @ r)"
        using blank [of "V @ d @ r"] by simp
      moreover have "nomatch d (CHR 0x0D # CHR 0x0A # V) (d @ r)"
        unfolding d_def V_def using Itoa_no_CR Itoa_no_hyphens by (rule nomatch_line)
      ultimately have "nomatch d ((CHR 0x0D # CHR 0x0A # L3) @ ?N @ (CHR 0x0D # CHR 0x0A # V)) (d @ r)"
        by (simp only: nomatch_append append_assoc) simp
      then show ?thesis by (simp add: seg2_def)
    qed
    have r2: "read_one (L3 @ [CHR 0x0D, CHR 0x0A, CHR 0x0D, CHR 0x0A] @ V) = Some p2"
      using read_one_one_line [of L3 _ "(''part_number'', None)" V] L3cr parse_disposition_field
      by (simp add: L3_def p2_def strip_prefix_append)
    have s2: "read_segments (seg2 # ss) = map_option ((#) p2) (read_segments ss)" for ss
      using r2 by (simp add: seg2_def)
    have "?N @ encode_form b (upload_form fileName B (Some p)) = [] @ d @ seg1 @ d @ seg2 @ d @ tail"
      by (simp add: encode_form_def upload_form_def CRLF_def d_def seg1_def seg2_def tail_def
          L1_def L2_def L3_def V_def)
    moreover have "split_on d [] ([] @ d @ seg1 @ d @ seg2 @ d @ tail) = [[], seg1, seg2, tail]"
      using split_on_step [OF dne, of "[]" "seg1 @ d @ seg2 @ d @ tail" "[]"]
        split_on_step [OF dne nm1 [of "seg2 @ d @ tail"], of "[]"]
        split_on_step [OF dne nm2 [of tail], of "[]"] last
      by simp
    ultimately have "read_form b (encode_form b (upload_form fileName B (Some p))) =
        read_segments [seg1, seg2, tail]"
      by (simp add: read_form_def d_def)
    then show ?thesis
      using Some by (simp only: s1 s2 st) (simp add: p1_def p2_def V_def)
  qed
qed

lemma hex_digits_no_CR:
  assumes "hex_digits b"
  shows "CHR 0x0D \<notin> set b"
proof
  assume "CHR 0x0D \<in> set b"
  moreover have "\<forall>c\<in>set b. c \<in> set ''0123456789abcdef''"
    using assms unfolding hex_digits_def list_all_iff .
  ultimately have "CHR 0x0D \<in> set ''0123456789abcdef''"
    by blast
  then show False by simp
qed

lemma percent_breaks_id:
  "CHR 0x0D \<notin> set s \<Longrightarrow> CHR 0x0A \<notin> set s \<Longrightarrow> percent_breaks s = s"
proof (induction s)
  case Nil
  show ?case by simp
next
  case (Cons a s)
  then have "a \<noteq> CHR 0x0D" "a \<noteq> CHR 0x0A" "percent_breaks s = s"
    by auto
  then show ?case by simp
qed

section \<open>The claims about the client\<close>

subsection \<open>Send\<close>

text \<open>
  C1. The claim: in every call of Send, the content type handed to the transport as
  the override carries the boundary that frames the body built in that call. The
  theorem evaluates Send at one input under two boundaries that the writer may draw:
  the override is the constant \<open>ContentTypeFormData\<close> both times, whatever its
  value is, while the content types that the two writers announce
  (\<open>FormDataContentType\<close>) differ. No value of the constant carries both
  boundaries.
\<close>

theorem Send_content_type_constant:
  "map c_contentTypeOverride
     (calls (Send ctfd zeros fuc 0 ''u1'' hello ''a.txt'' None)) = [ctfd]
   \<and> map c_contentTypeOverride
     (calls (Send ctfd ones fuc 0 ''u1'' hello ''a.txt'' None)) = [ctfd]
   \<and> FormDataContentType (NewWriter zeros) = ''multipart/form-data; boundary='' @ zeros
   \<and> FormDataContentType (NewWriter ones) = ''multipart/form-data; boundary='' @ ones
   \<and> FormDataContentType (NewWriter zeros) \<noteq> FormDataContentType (NewWriter ones)"
  by (simp add: Send_calls send_call_def FormDataContentType_def NewWriter_def hello_def
      zeros_def ones_def)

text \<open>
  C4, as amended. Let the boundary be of hexadecimal digits, as the writer draws it,
  let the content stream of Send end without a read error, and let the delimiter of
  the boundary (a line break, two hyphens, the boundary) not occur in the content put
  after a line break: two hyphens and the boundary begin neither the content nor a
  line of it. Then the body handed to the transport, read back as a multipart form,
  is exactly one file part of field name \<open>file\<close> whose bytes are the bytes of the
  stream, followed by the text field \<open>part_number\<close> with the decimal text of the
  part number when one was given and by no other part when none was given. The
  declared file name is \<open>fileName\<close> with its carriage returns written \<open>%0D\<close> and
  its line feeds written \<open>%0A\<close>: \<open>fileName\<close> itself when it has neither.
\<close>

theorem Send_body_read_back:
  assumes "final file = None"
    and "hex_digits b"
    and "\<not> occurs_in ([CHR 0x0D, CHR 0x0A] @ ''--'' @ b)
             ([CHR 0x0D, CHR 0x0A] @ concat (chunks file))"
  shows "map (read_body b)
       (map c_body (calls (Send ctfd b fuc ctx ident file fileName partNumber))) =
     [Some (\<lparr>rp_name = ''file'', rp_filename = Some (percent_breaks fileName),
              rp_content = concat (chunks file)\<rparr> #
        (case partNumber of
           None \<Rightarrow> []
         | Some p \<Rightarrow>
             [\<lparr>rp_name = ''part_number'', rp_filename = None,
               rp_content = Itoa (sint p)\<rparr>]))]
   \<and> (CHR 0x0D \<notin> set fileName \<and> CHR 0x0A \<notin> set fileName \<longrightarrow>
        percent_breaks fileName = fileName)"
  using assms(1) read_form_upload [OF hex_digits_no_CR [OF assms(2)] assms(3)]
  by (simp add: Send_calls send_call_def percent_breaks_id)

theorem Send_body_read_back_witness:
  "final hello = None
   \<and> hex_digits zeros
   \<and> \<not> occurs_in ([CHR 0x0D, CHR 0x0A] @ ''--'' @ zeros)
         ([CHR 0x0D, CHR 0x0A] @ concat (chunks hello))
   \<and> CHR 0x0D \<notin> set ''a.txt'' \<and> CHR 0x0A \<notin> set ''a.txt''
   \<and> map (read_body zeros)
       (map c_body (calls (Send ''multipart/form-data'' zeros
          (answering (Inr (response 200 (BadBody (Err ''EOF''))))) 0 ''u1'' hello ''a.txt''
          (Some 3)))) =
      [Some [\<lparr>rp_name = ''file'', rp_filename = Some ''a.txt'', rp_content = ''hello''\<rparr>,
             \<lparr>rp_name = ''part_number'', rp_filename = None, rp_content = ''3''\<rparr>]]
   \<and> map (read_body zeros)
       (map c_body (calls (Send ''multipart/form-data'' zeros
          (answering (Inr (response 200 (BadBody (Err ''EOF''))))) 0 ''u1'' hello ''a.txt''
          None))) =
      [Some [\<lparr>rp_name = ''file'', rp_filename = Some ''a.txt'', rp_content = ''hello''\<rparr>]]"
proof -
  have h1: "final hello = None"
    by (simp add: hello_def)
  have h2: "hex_digits zeros"
    by (simp add: hex_digits_def zeros_def)
  have h3: "\<not> occurs_in ([CHR 0x0D, CHR 0x0A] @ ''--'' @ zeros)
         ([CHR 0x0D, CHR 0x0A] @ concat (chunks hello))"
    by (simp add: hello_def zeros_def)
  show ?thesis
    using h1 h2 h3
      Send_body_read_back [OF h1 h2 h3, of "''multipart/form-data''"
        "answering (Inr (response 200 (BadBody (Err ''EOF''))))" 0 "''u1''" "''a.txt''" "Some 3"]
      Send_body_read_back [OF h1 h2 h3, of "''multipart/form-data''"
        "answering (Inr (response 200 (BadBody (Err ''EOF''))))" 0 "''u1''" "''a.txt''" None]
    by (simp add: hello_def Itoa_def decimal.simps)
qed

text \<open>
  The claim C4 as it stands, for every content and every file name, fails. Under the
  boundary \<open>zeros\<close> the content \<open>smuggled\<close>, sent with no part number, gives byte
  for byte the body of the one byte \<open>x\<close> sent with the part number 3: read back, it
  has a file part whose bytes are not the content and it has a \<open>part_number\<close> field.
  And a file name with a line break is not the file name that the body declares.
\<close>

theorem Send_body_counterexample:
  "map c_body (calls (Send ''multipart/form-data'' zeros
      (answering (Inr (response 200 (BadBody (Err ''EOF''))))) 0 ''u1'' smuggled ''a.txt'' None)) =
   map c_body (calls (Send ''multipart/form-data'' zeros
      (answering (Inr (response 200 (BadBody (Err ''EOF''))))) 0 ''u1'' one_byte ''a.txt''
      (Some 3)))
   \<and> map (read_body zeros)
       (map c_body (calls (Send ''multipart/form-data'' zeros
          (answering (Inr (response 200 (BadBody (Err ''EOF''))))) 0 ''u1'' smuggled ''a.txt''
          None))) =
      [Some [\<lparr>rp_name = ''file'', rp_filename = Some ''a.txt'', rp_content = ''x''\<rparr>,
             \<lparr>rp_name = ''part_number'', rp_filename = None, rp_content = ''3''\<rparr>]]
   \<and> concat (chunks smuggled) \<noteq> ''x''
   \<and> map (read_body zeros)
       (map c_body (calls (Send ''multipart/form-data'' zeros
          (answering (Inr (response 200 (BadBody (Err ''EOF''))))) 0 ''u1'' hello broken_name
          None))) =
      [Some [\<lparr>rp_name = ''file'', rp_filename = Some ''a%0D%0Ab.txt'',
              rp_content = ''hello''\<rparr>]]
   \<and> broken_name \<noteq> ''a%0D%0Ab.txt''"
proof -
  have same: "encode_form zeros (upload_form ''a.txt'' (concat (chunks smuggled)) None) =
      encode_form zeros (upload_form ''a.txt'' ''x'' (Some 3))"
    by (simp add: encode_form_def upload_form_def smuggled_def CRLF_def quoted_def Itoa_def
        decimal.simps)
  have z: "CHR 0x0D \<notin> set zeros"
    by (simp add: zeros_def)
  have x: "\<not> occurs_in ([CHR 0x0D, CHR 0x0A] @ ''--'' @ zeros) ([CHR 0x0D, CHR 0x0A] @ ''x'')"
    by (simp add: zeros_def)
  have h: "\<not> occurs_in ([CHR 0x0D, CHR 0x0A] @ ''--'' @ zeros) ([CHR 0x0D, CHR 0x0A] @ ''hello'')"
    by (simp add: zeros_def)
  have three: "read_form zeros (encode_form zeros (upload_form ''a.txt'' ''x'' (Some 3))) =
      Some [\<lparr>rp_name = ''file'', rp_filename = Some ''a.txt'', rp_content = ''x''\<rparr>,
            \<lparr>rp_name = ''part_number'', rp_filename = None, rp_content = ''3''\<rparr>]"
    using read_form_upload [OF z x, of "''a.txt''" "Some 3"]
    by (simp add: Itoa_def decimal.simps)
  have name: "read_form zeros (encode_form zeros (upload_form broken_name ''hello'' None)) =
      Some [\<lparr>rp_name = ''file'', rp_filename = Some ''a%0D%0Ab.txt'', rp_content = ''hello''\<rparr>]"
    using read_form_upload [OF z h, of broken_name None]
    by (simp add: broken_name_def)
  show ?thesis
    using same three name
    by (simp add: Send_calls send_call_def smuggled_def one_byte_def hello_def broken_name_def)
qed

text \<open>
  C5. Send returns \<^verbatim>\<open>nil\<close> exactly when its content stream ends without a read
  error (the only way the building of the body can fail), the transport answers with
  a response and the status code of the response is 200. It invokes the transport
  exactly when the stream ends without a read error, so a failure to build the body
  returns an error and sends nothing. What Send returns does not depend on the bodies
  of the responses.
\<close>

theorem Send_nil_iff:
  "(result (Send ctfd b fuc ctx ident file fileName partNumber) = None) =
     (final file = None \<and>
      (\<exists>res. request (apiClient fuc) (send_call ctfd b ctx ident file fileName partNumber)
               = Inr res
             \<and> StatusCode res = 200))
   \<and> (calls (Send ctfd b fuc ctx ident file fileName partNumber) = []) = (final file \<noteq> None)
   \<and> result (Send ctfd b (with_bodies g fuc) ctx ident file fileName partNumber) =
       result (Send ctfd b fuc ctx ident file fileName partNumber)"
  by (cases "final file")
     (auto simp: Send_calls Send_result send_reply_def with_bodies_def split: sum.splits)

theorem Send_nil_iff_witness:
  "result (Send ''multipart/form-data'' ''B'' (answering (Inr (response 200 (BadBody (Err ''EOF'')))))
      0 ''u1'' hello ''a.txt'' None) = None
   \<and> result (Send ''multipart/form-data'' ''B'' (answering (Inr (response 500 (BadBody (Err ''EOF'')))))
      0 ''u1'' hello ''a.txt'' None) \<noteq> None
   \<and> calls (Send ''multipart/form-data'' ''B'' (answering (Inr (response 200 (BadBody (Err ''EOF'')))))
      0 ''u1'' broken ''a.txt'' None) = []
   \<and> result (Send ''multipart/form-data'' ''B'' (answering (Inr (response 200 (BadBody (Err ''EOF'')))))
      0 ''u1'' broken ''a.txt'' None) \<noteq> None"
  using
    Send_nil_iff [of "''multipart/form-data''" "''B''"
      "answering (Inr (response 200 (BadBody (Err ''EOF''))))" 0 "''u1''" hello "''a.txt''" None]
    Send_nil_iff [of "''multipart/form-data''" "''B''"
      "answering (Inr (response 500 (BadBody (Err ''EOF''))))" 0 "''u1''" hello "''a.txt''" None]
    Send_nil_iff [of "''multipart/form-data''" "''B''"
      "answering (Inr (response 200 (BadBody (Err ''EOF''))))" 0 "''u1''" broken "''a.txt''" None]
  by (simp add: hello_def broken_def answering_def response_def)

text \<open>
  C10. Send does not look at the value of a part number: with any part number \<open>p\<close>
  (zero and the negative ones too) it invokes the transport exactly when it does so
  with no part number, and the body it sends then holds the text field
  \<open>part_number\<close> whose value is the decimal text of \<open>p\<close>: the text that reads back as
  \<open>p\<close>.
\<close>

theorem Send_part_number_unchecked:
  "map c_body (calls (Send ctfd b fuc ctx ident file fileName (Some p))) =
     (if final file = None
      then [BufferBody (encode_form b
              [FilePart ''file'' fileName (concat (chunks file)),
               TextField ''part_number'' (Itoa (sint p))])]
      else [])
   \<and> decimal_value (Itoa (sint p)) = sint p
   \<and> (calls (Send ctfd b fuc ctx ident file fileName (Some p)) = []) =
       (calls (Send ctfd b fuc ctx ident file fileName None) = [])"
  by (simp add: Send_calls send_call_def upload_form_def decimal_value_Itoa)

theorem Send_part_number_unchecked_witness:
  "map c_body (calls (Send ''multipart/form-data'' ''B'' (answering (Inr (response 200 (BadBody (Err ''EOF'')))))
       0 ''u1'' hello ''a.txt'' (Some 0))) =
     [BufferBody (encode_form ''B''
        [FilePart ''file'' ''a.txt'' ''hello'', TextField ''part_number'' ''0''])]
   \<and> map c_body (calls (Send ''multipart/form-data'' ''B'' (answering (Inr (response 200 (BadBody (Err ''EOF'')))))
       0 ''u1'' hello ''a.txt'' (Some (- 7)))) =
     [BufferBody (encode_form ''B''
        [FilePart ''file'' ''a.txt'' ''hello'', TextField ''part_number'' ''-7''])]"
  using
    Send_part_number_unchecked [of "''multipart/form-data''" "''B''"
      "answering (Inr (response 200 (BadBody (Err ''EOF''))))" 0 "''u1''" hello "''a.txt''" 0]
    Send_part_number_unchecked [of "''multipart/form-data''" "''B''"
      "answering (Inr (response 200 (BadBody (Err ''EOF''))))" 0 "''u1''" hello "''a.txt''" "- 7"]
  by (simp add: hello_def Itoa_def decimal.simps)

subsection \<open>Create\<close>

text \<open>
  C2, as amended. Create validates nothing by itself: for a request of mode
  \<open>multi_part\<close> whose number of parts is absent or outside 1 to 1000, it invokes the
  transport once, with the request as it is for the body, and returns what the answer
  of the transport determines: the error of the transport, an error for a status
  other than 200 or for a body that does not decode, the decoded record otherwise.
\<close>

theorem Create_sends_any_number_of_parts:
  assumes "Mode rb = FileUploadModeMultiPart"
    and "case NumberOfParts rb of None \<Rightarrow> True | Some n \<Rightarrow> sint n < 1 \<or> 1000 < sint n"
  shows "calls (Create rfc fuc ctx (Some rb)) = [create_call ctx (Some rb)]
    \<and> result (Create rfc fuc ctx (Some rb)) =
        create_reply rfc (request (apiClient fuc) (create_call ctx (Some rb)))"
  by (simp add: Create_calls Create_result)

theorem Create_sends_any_number_of_parts_witness:
  "Mode (multi_part_request ''big.bin'' (Some 1001)) = FileUploadModeMultiPart
   \<and> 1000 < sint (1001 :: 32 word)
   \<and> calls (Create (\<lambda>s. True) (answering (Inr (response 200 (status_body ''pending''))))
        0 (Some (multi_part_request ''big.bin'' (Some 1001)))) =
      [\<lparr>c_ctx = 0, c_method = ''POST'', c_path = ''file_uploads'', c_query = None,
        c_body = CreateBody (Some (multi_part_request ''big.bin'' (Some 1001))),
        c_contentTypeOverride = []\<rparr>]
   \<and> result (Create (\<lambda>s. True) (answering (Inr (response 200 (status_body ''pending''))))
        0 (Some (multi_part_request ''big.bin'' (Some 1001)))) =
      Inr (record_u1 ''pending'')"
  using Create_sends_any_number_of_parts [of "multi_part_request ''big.bin'' (Some 1001)"
      "\<lambda>s. True" "answering (Inr (response 200 (status_body ''pending'')))" 0]
  by (simp add: multi_part_request_def create_call_def create_reply_def answering_def
      response_def status_body_def record_u1_def Decode_def Unmarshal_def decode_field_def
      find_field_def struct_fields_def store_string_def upper_def zero_FileUpload_def)

text \<open>
  The claim C2 as it stands fails: with no number of parts, with 0 and with 1001 the
  transport is invoked, and Create returns the record that the service answers with.
\<close>

theorem Create_parts_counterexample:
  "calls (Create (\<lambda>s. True) (answering (Inr (response 200 (status_body ''pending''))))
      0 (Some (multi_part_request ''big.bin'' None))) =
     [create_call 0 (Some (multi_part_request ''big.bin'' None))]
   \<and> result (Create (\<lambda>s. True) (answering (Inr (response 200 (status_body ''pending''))))
      0 (Some (multi_part_request ''big.bin'' None))) = Inr (record_u1 ''pending'')
   \<and> calls (Create (\<lambda>s. True) (answering (Inr (response 200 (status_body ''pending''))))
      0 (Some (multi_part_request ''big.bin'' (Some 0)))) =
     [create_call 0 (Some (multi_part_request ''big.bin'' (Some 0)))]
   \<and> result (Create (\<lambda>s. True) (answering (Inr (response 200 (status_body ''pending''))))
      0 (Some (multi_part_request ''big.bin'' (Some 0)))) = Inr (record_u1 ''pending'')
   \<and> calls (Create (\<lambda>s. True) (answering (Inr (response 200 (status_body ''pending''))))
      0 (Some (multi_part_request ''big.bin'' (Some 1001)))) =
     [create_call 0 (Some (multi_part_request ''big.bin'' (Some 1001)))]
   \<and> result (Create (\<lambda>s. True) (answering (Inr (response 200 (status_body ''pending''))))
      0 (Some (multi_part_request ''big.bin'' (Some 1001)))) = Inr (record_u1 ''pending'')"
  by (simp add: Create_calls Create_result create_reply_def answering_def
      response_def status_body_def record_u1_def Decode_def Unmarshal_def decode_field_def
      find_field_def struct_fields_def store_string_def upper_def zero_FileUpload_def)

text \<open>
  C3, as amended. Create does not look at the file name or the external URL: for a
  request of mode \<open>multi_part\<close> with an empty file name, and for a request of mode
  \<open>external_url\<close> with an empty URL, it invokes the transport once with the request
  as it is, and fails only as the answer of the transport makes it fail.
\<close>

theorem Create_sends_empty_names:
  assumes "(Mode rb = FileUploadModeMultiPart \<and> Filename rb = [])
         \<or> (Mode rb = FileUploadModeExternalURL \<and> ExternalURL rb = [])"
  shows "calls (Create rfc fuc ctx (Some rb)) = [create_call ctx (Some rb)]
    \<and> result (Create rfc fuc ctx (Some rb)) =
        create_reply rfc (request (apiClient fuc) (create_call ctx (Some rb)))"
  by (simp add: Create_calls Create_result)

theorem Create_sends_empty_names_witness:
  "(Mode (multi_part_request [] (Some 2)) = FileUploadModeMultiPart
      \<and> Filename (multi_part_request [] (Some 2)) = [])
   \<and> calls (Create (\<lambda>s. True) (answering (Inr (response 200 (status_body ''pending''))))
        0 (Some (multi_part_request [] (Some 2)))) =
      [\<lparr>c_ctx = 0, c_method = ''POST'', c_path = ''file_uploads'', c_query = None,
        c_body = CreateBody (Some (multi_part_request [] (Some 2))),
        c_contentTypeOverride = []\<rparr>]
   \<and> (Mode (external_url_request []) = FileUploadModeExternalURL
      \<and> ExternalURL (external_url_request []) = [])
   \<and> calls (Create (\<lambda>s. True) (answering (Inr (response 200 (status_body ''pending''))))
        0 (Some (external_url_request []))) =
      [\<lparr>c_ctx = 0, c_method = ''POST'', c_path = ''file_uploads'', c_query = None,
        c_body = CreateBody (Some (external_url_request [])),
        c_contentTypeOverride = []\<rparr>]"
  using
    Create_sends_empty_names [of "multi_part_request [] (Some 2)" "\<lambda>s. True"
      "answering (Inr (response 200 (status_body ''pending'')))" 0]
    Create_sends_empty_names [of "external_url_request []" "\<lambda>s. True"
      "answering (Inr (response 200 (status_body ''pending'')))" 0]
  by (simp add: multi_part_request_def external_url_request_def create_call_def)

text \<open>
  The claim C3 as it stands fails: with an empty file name in mode \<open>multi_part\<close> and
  with an empty URL in mode \<open>external_url\<close> the transport is invoked, and Create
  returns the record that the service answers with.
\<close>

theorem Create_empty_names_counterexample:
  "calls (Create (\<lambda>s. True) (answering (Inr (response 200 (status_body ''pending''))))
      0 (Some (multi_part_request [] (Some 2)))) =
     [create_call 0 (Some (multi_part_request [] (Some 2)))]
   \<and> result (Create (\<lambda>s. True) (answering (Inr (response 200 (status_body ''pending''))))
      0 (Some (multi_part_request [] (Some 2)))) = Inr (record_u1 ''pending'')
   \<and> calls (Create (\<lambda>s. True) (answering (Inr (response 200 (status_body ''pending''))))
      0 (Some (external_url_request []))) =
     [create_call 0 (Some (external_url_request []))]
   \<and> result (Create (\<lambda>s. True) (answering (Inr (response 200 (status_body ''pending''))))
      0 (Some (external_url_request []))) = Inr (record_u1 ''pending'')"
  by (simp add: Create_calls Create_result create_reply_def answering_def
      response_def status_body_def record_u1_def Decode_def Unmarshal_def decode_field_def
      find_field_def struct_fields_def store_string_def upper_def zero_FileUpload_def)

text \<open>
  C6. When the transport answers Create with a response: a status code other than
  200 makes Create return an error that names the code; a status code of 200 with a
  body that does not decode into a \<^verbatim>\<open>FileUpload\<close> makes it return an error that wraps
  the error of the decoder; a status code of 200 with a body that decodes makes it
  return the decoded record and no error.
\<close>

theorem Create_answer:
  assumes "request (apiClient fuc) (create_call ctx rb) = Inr res"
  shows "result (Create rfc fuc ctx rb) =
     (if StatusCode res \<noteq> 200
      then Inl (Errorf_d ''FileUploadClient.Create: unexpected status code: '' (StatusCode res))
      else (case Decode rfc (Body res) of
              Inl e \<Rightarrow> Inl (Errorf_w ''handleFileUploadResponse: failed to decode json: '' e)
            | Inr r \<Rightarrow> Inr r))"
  using assms by (simp add: Create_result create_reply_def)

theorem Create_answer_witness:
  "request (apiClient (answering (Inr (response 500 (status_body ''pending'')))))
      (create_call 0 None) = Inr (response 500 (status_body ''pending''))
   \<and> result (Create (\<lambda>s. True) (answering (Inr (response 500 (status_body ''pending'')))) 0 None) =
       Inl (Errorf_d ''FileUploadClient.Create: unexpected status code: '' 500)
   \<and> result (Create (\<lambda>s. True)
         (answering (Inr (response 200 (BadBody (Err ''unexpected end of JSON input''))))) 0 None) =
       Inl (Errorf_w ''handleFileUploadResponse: failed to decode json: ''
              (Err ''unexpected end of JSON input''))
   \<and> result (Create (\<lambda>s. True)
         (answering (Inr (response 200 (JsonBody (JArray []))))) 0 None) =
       Inl (Errorf_w ''handleFileUploadResponse: failed to decode json: ''
              (UnmarshalTypeError ''array'' []))
   \<and> result (Create (\<lambda>s. True) (answering (Inr (response 200 (status_body ''pending'')))) 0 None) =
       Inr (record_u1 ''pending'')"
  using
    Create_answer [of "answering (Inr (response 500 (status_body ''pending'')))" 0 None
      "response 500 (status_body ''pending'')" "\<lambda>s. True"]
    Create_answer [of "answering (Inr (response 200 (BadBody (Err ''unexpected end of JSON input''))))"
      0 None "response 200 (BadBody (Err ''unexpected end of JSON input''))" "\<lambda>s. True"]
    Create_answer [of "answering (Inr (response 200 (JsonBody (JArray []))))"
      0 None "response 200 (JsonBody (JArray []))" "\<lambda>s. True"]
    Create_answer [of "answering (Inr (response 200 (status_body ''pending'')))" 0 None
      "response 200 (status_body ''pending'')" "\<lambda>s. True"]
  by (simp add: answering_def response_def status_body_def record_u1_def Decode_def
      Unmarshal_def decode_field_def find_field_def struct_fields_def store_string_def upper_def
      zero_FileUpload_def)


subsection \<open>SendFileByPath\<close>

text \<open>
  C9. SendFileByPath returns an error that wraps the failure of \<^verbatim>\<open>os.Open\<close> or of
  \<^verbatim>\<open>Stat\<close> when one of them fails, and makes no transport call then; otherwise it
  returns what Send returns for the opened file under the base name of the path, and
  makes the transport calls of that Send. The base name of a path that does not end
  in a slash is its last element: what follows the last slash, or the whole path when
  it has no slash.
\<close>

theorem SendFileByPath_cases:
  "result (SendFileByPath ctfd b fs fuc ctx ident filePath partNumber) =
     (case fs filePath of
        Inl e \<Rightarrow>
          Some (Errorf_w (''SendFileByPath: failed to open file '' @ filePath @ '': '') e)
      | Inr st \<Rightarrow>
          (case fs_stat_err st of
             Some e \<Rightarrow>
               Some (Errorf_w
                 (''SendFileByPath: failed to get file info for '' @ filePath @ '': '') e)
           | None \<Rightarrow>
               result (Send ctfd b fuc ctx ident (fs_content st) (basename filePath)
                 partNumber)))
   \<and> calls (SendFileByPath ctfd b fs fuc ctx ident filePath partNumber) =
     (case fs filePath of
        Inl e \<Rightarrow> []
      | Inr st \<Rightarrow>
          (case fs_stat_err st of
             Some e \<Rightarrow> []
           | None \<Rightarrow>
               calls (Send ctfd b fuc ctx ident (fs_content st) (basename filePath)
                 partNumber)))
   \<and> (filePath \<noteq> [] \<and> last filePath \<noteq> CHR ''/'' \<longrightarrow>
        (\<exists>dir. filePath = dir @ basename filePath \<and> (dir = [] \<or> last dir = CHR ''/''))
        \<and> CHR ''/'' \<notin> set (basename filePath))"
  using basename_last_element [of filePath]
  by (simp add: SendFileByPath_result SendFileByPath_calls)

theorem SendFileByPath_cases_witness:
  "(''/tmp/up/a.txt'' \<noteq> [] \<and> last ''/tmp/up/a.txt'' \<noteq> CHR ''/'')
   \<and> basename ''/tmp/up/a.txt'' = ''a.txt''
   \<and> ''/tmp/up/a.txt'' = ''/tmp/up/'' @ basename ''/tmp/up/a.txt''
   \<and> result (SendFileByPath ''multipart/form-data'' ''B'' one_file
      (answering (Inr (response 200 (BadBody (Err ''EOF''))))) 0 ''u1'' ''/tmp/up/none.txt'' None) =
     Some (Errorf_w ''SendFileByPath: failed to open file /tmp/up/none.txt: ''
             (Err ''open: no such file or directory''))
   \<and> calls (SendFileByPath ''multipart/form-data'' ''B'' one_file
      (answering (Inr (response 200 (BadBody (Err ''EOF''))))) 0 ''u1'' ''/tmp/up/none.txt'' None) = []
   \<and> result (SendFileByPath ''multipart/form-data'' ''B'' one_file
      (answering (Inr (response 200 (BadBody (Err ''EOF''))))) 0 ''u1'' ''/tmp/up/gone.txt'' None) =
     Some (Errorf_w ''SendFileByPath: failed to get file info for /tmp/up/gone.txt: ''
             (Err ''stat: bad file descriptor''))
   \<and> calls (SendFileByPath ''multipart/form-data'' ''B'' one_file
      (answering (Inr (response 200 (BadBody (Err ''EOF''))))) 0 ''u1'' ''/tmp/up/gone.txt'' None) = []
   \<and> result (SendFileByPath ''multipart/form-data'' ''B'' one_file
      (answering (Inr (response 200 (BadBody (Err ''EOF''))))) 0 ''u1'' ''/tmp/up/a.txt'' None) =
     result (Send ''multipart/form-data'' ''B''
      (answering (Inr (response 200 (BadBody (Err ''EOF''))))) 0 ''u1'' hello ''a.txt'' None)
   \<and> map c_body (calls (SendFileByPath ''multipart/form-data'' ''B'' one_file
      (answering (Inr (response 200 (BadBody (Err ''EOF''))))) 0 ''u1'' ''/tmp/up/a.txt'' None)) =
     [BufferBody (encode_form ''B'' [FilePart ''file'' ''a.txt'' ''hello''])]"
  using
    SendFileByPath_cases [of "''multipart/form-data''" "''B''" one_file
      "answering (Inr (response 200 (BadBody (Err ''EOF''))))" 0 "''u1''" "''/tmp/up/none.txt''" None]
    SendFileByPath_cases [of "''multipart/form-data''" "''B''" one_file
      "answering (Inr (response 200 (BadBody (Err ''EOF''))))" 0 "''u1''" "''/tmp/up/gone.txt''" None]
    SendFileByPath_cases [of "''multipart/form-data''" "''B''" one_file
      "answering (Inr (response 200 (BadBody (Err ''EOF''))))" 0 "''u1''" "''/tmp/up/a.txt''" None]
  by (simp add: one_file_def basename_def Send_calls send_call_def upload_form_def hello_def)

subsection \<open>Errors of the transport\<close>

text \<open>
  C7, as amended. When the transport answers with an error \<open>e\<close>: Create returns
  \<open>e\<close> itself; Send returns an error that wraps \<open>e\<close> under the text
  \<^verbatim>\<open>FileUploadClient.Send: request failed: \<close>, from which \<^verbatim>\<open>Unwrap\<close> gives \<open>e\<close> back;
  SendFileByPath returns the error of Send, the same wrapping of \<open>e\<close>. Each of the
  three has called the transport once: none calls it again.
\<close>

theorem transport_error_returned:
  "(request (apiClient fuc) (create_call ctx rb) = Inl e \<longrightarrow>
      result (Create rfc fuc ctx rb) = Inl e
      \<and> calls (Create rfc fuc ctx rb) = [create_call ctx rb])
   \<and> (final file = None
        \<and> request (apiClient fuc) (send_call ctfd b ctx ident file fileName partNumber) = Inl e \<longrightarrow>
      result (Send ctfd b fuc ctx ident file fileName partNumber) =
        Some (Errorf_w ''FileUploadClient.Send: request failed: '' e)
      \<and> Option.bind (result (Send ctfd b fuc ctx ident file fileName partNumber)) Unwrap = Some e
      \<and> calls (Send ctfd b fuc ctx ident file fileName partNumber) =
          [send_call ctfd b ctx ident file fileName partNumber])
   \<and> (fs filePath = Inr st \<and> fs_stat_err st = None \<and> final (fs_content st) = None
        \<and> request (apiClient fuc)
            (send_call ctfd b ctx ident (fs_content st) (basename filePath) partNumber) = Inl e \<longrightarrow>
      result (SendFileByPath ctfd b fs fuc ctx ident filePath partNumber) =
        Some (Errorf_w ''FileUploadClient.Send: request failed: '' e)
      \<and> Option.bind (result (SendFileByPath ctfd b fs fuc ctx ident filePath partNumber)) Unwrap
          = Some e
      \<and> calls (SendFileByPath ctfd b fs fuc ctx ident filePath partNumber) =
          [send_call ctfd b ctx ident (fs_content st) (basename filePath) partNumber])"
  by (simp add: Create_calls Create_result create_reply_def Send_calls Send_result
      send_reply_def SendFileByPath_result SendFileByPath_calls)

theorem transport_error_returned_witness:
  "request (apiClient (answering (Inl (Err ''timeout'')))) (create_call 0 None) = Inl (Err ''timeout'')
   \<and> result (Create (\<lambda>s. True) (answering (Inl (Err ''timeout''))) 0 None) = Inl (Err ''timeout'')
   \<and> final hello = None
   \<and> request (apiClient (answering (Inl (Err ''timeout''))))
       (send_call ''multipart/form-data'' ''B'' 0 ''u1'' hello ''a.txt'' None) = Inl (Err ''timeout'')
   \<and> result (Send ''multipart/form-data'' ''B'' (answering (Inl (Err ''timeout''))) 0 ''u1'' hello
       ''a.txt'' None) =
      Some (Errorf_w ''FileUploadClient.Send: request failed: '' (Err ''timeout''))
   \<and> one_file ''/tmp/up/a.txt'' =
       Inr \<lparr>fs_content = hello, fs_stat_err = None, fs_close_err = None\<rparr>
   \<and> result (SendFileByPath ''multipart/form-data'' ''B'' one_file
       (answering (Inl (Err ''timeout''))) 0 ''u1'' ''/tmp/up/a.txt'' None) =
      Some (Errorf_w ''FileUploadClient.Send: request failed: '' (Err ''timeout''))"
  using transport_error_returned [of "answering (Inl (Err ''timeout''))" 0 None "Err ''timeout''"
      "\<lambda>s. True" hello "''multipart/form-data''" "''B''" "''u1''" "''a.txt''" None one_file
      "''/tmp/up/a.txt''" "\<lparr>fs_content = hello, fs_stat_err = None, fs_close_err = None\<rparr>"]
  by (simp add: answering_def hello_def one_file_def basename_def)

text \<open>
  The claim C7 as it stands fails for Send and for SendFileByPath: the error they
  return is not the error of the transport but an error that wraps it.
\<close>

theorem Send_wraps_transport_error_counterexample:
  "result (Send ''multipart/form-data'' ''B'' (answering (Inl (Err ''timeout''))) 0 ''u1'' hello
      ''a.txt'' None) =
     Some (Errorf_w ''FileUploadClient.Send: request failed: '' (Err ''timeout''))
   \<and> result (Send ''multipart/form-data'' ''B'' (answering (Inl (Err ''timeout''))) 0 ''u1'' hello
      ''a.txt'' None) \<noteq> Some (Err ''timeout'')
   \<and> result (SendFileByPath ''multipart/form-data'' ''B'' one_file
      (answering (Inl (Err ''timeout''))) 0 ''u1'' ''/tmp/up/a.txt'' None) =
     Some (Errorf_w ''FileUploadClient.Send: request failed: '' (Err ''timeout''))
   \<and> result (SendFileByPath ''multipart/form-data'' ''B'' one_file
      (answering (Inl (Err ''timeout''))) 0 ''u1'' ''/tmp/up/a.txt'' None) \<noteq> Some (Err ''timeout'')"
  by (simp add: Send_result send_reply_def SendFileByPath_result answering_def hello_def
      one_file_def)

end
